theory Spec2Isabelle
  imports Complex_Main "HOL-Library.Char_ord"
begin

section \<open>JavaScript values as the server receives them\<close>

text \<open>
  The request body is whatever \<^verbatim>\<open>express.json()\<close> parsed: a JSON value. A number is
  a double, written by its exact value (a rational), or one of the three special values.
  A string is a list of code units below 256, that is of the characters of Latin-1: a
  \<open>char\<close> stands for the code unit of its code, and white space and the case of
  letters are those the language gives these code units. \<open>JUndefined\<close> is the value of
  a property that is not there.
\<close>

datatype jsnum = NaN | PosInf | NegInf | Fin rat

datatype jsval =
    JUndefined
  | JNull
  | JBool bool
  | JNum jsnum
  | JStr string
  | JArr "jsval list"
  | JObj "(string \<times> jsval) list"

text \<open>The only exception the modelled code can raise by itself.\<close>

datatype jserror = TypeError

definition bindE :: "jserror + 'a \<Rightarrow> ('a \<Rightarrow> jserror + 'b) \<Rightarrow> jserror + 'b" where
  "bindE m f = (case m of Inl e \<Rightarrow> Inl e | Inr x \<Rightarrow> f x)"

fun mapE :: "('a \<Rightarrow> jserror + 'b) \<Rightarrow> 'a list \<Rightarrow> jserror + 'b list" where
  "mapE f [] = Inr []"
| "mapE f (x # xs) = bindE (f x) (\<lambda>y. bindE (mapE f xs) (\<lambda>ys. Inr (y # ys)))"

subsection \<open>Number predicates and comparisons\<close>

fun isFinite :: "jsnum \<Rightarrow> bool" where
  "isFinite (Fin r) = True"
| "isFinite _ = False"

text \<open>\<^verbatim>\<open>a <= b\<close> on numbers: false as soon as one side is NaN.\<close>

fun num_le :: "jsnum \<Rightarrow> jsnum \<Rightarrow> bool" where
  "num_le NaN _ = False"
| "num_le _ NaN = False"
| "num_le NegInf _ = True"
| "num_le _ PosInf = True"
| "num_le (Fin a) (Fin b) = (a \<le> b)"
| "num_le PosInf _ = False"
| "num_le _ NegInf = False"

text \<open>\<^verbatim>\<open>Math.max\<close> and \<^verbatim>\<open>Math.min\<close> of two numbers: NaN if one of them is.\<close>

fun Math_max :: "jsnum \<Rightarrow> jsnum \<Rightarrow> jsnum" where
  "Math_max NaN _ = NaN"
| "Math_max _ NaN = NaN"
| "Math_max a b = (if num_le a b then b else a)"

fun Math_min :: "jsnum \<Rightarrow> jsnum \<Rightarrow> jsnum" where
  "Math_min NaN _ = NaN"
| "Math_min _ NaN = NaN"
| "Math_min a b = (if num_le a b then a else b)"

text \<open>A finite number strictly greater than 0: \<^verbatim>\<open>Number.isFinite(n) && n > 0\<close>.\<close>

fun positiveFinite :: "jsnum \<Rightarrow> bool" where
  "positiveFinite (Fin r) = (0 < r)"
| "positiveFinite _ = False"

subsection \<open>Truthiness, property reads\<close>

fun truthy :: "jsval \<Rightarrow> bool" where
  "truthy JUndefined = False"
| "truthy JNull = False"
| "truthy (JBool b) = b"
| "truthy (JNum NaN) = False"
| "truthy (JNum (Fin r)) = (r \<noteq> 0)"
| "truthy (JNum _) = True"
| "truthy (JStr s) = (s \<noteq> [])"
| "truthy (JArr _) = True"
| "truthy (JObj _) = True"

text \<open>
  \<^verbatim>\<open>v.k\<close> for the keys the source reads (\<open>name\<close>, \<open>phone\<close>, \<open>items\<close>, \<open>lessonIDs\<close>,
  \<open>space\<close>, \<open>lessonId\<close>, \<open>lessonID\<close>, \<open>id\<close>): none of them is defined on a built-in
  prototype, so the read gives the object's own property or \<open>undefined\<close>; on \<open>null\<close>
  and \<open>undefined\<close> it raises. A parsed object has each of its keys once.
\<close>

fun getProp :: "jsval \<Rightarrow> string \<Rightarrow> jserror + jsval" where
  "getProp JUndefined k = Inl TypeError"
| "getProp JNull k = Inl TypeError"
| "getProp (JObj kvs) k = Inr (case map_of kvs k of None \<Rightarrow> JUndefined | Some v \<Rightarrow> v)"
| "getProp _ k = Inr JUndefined"

text \<open>\<^verbatim>\<open>a || b\<close>, with \<open>b\<close> evaluated only when \<open>a\<close> is falsy.\<close>

definition js_or :: "jsval \<Rightarrow> jsval \<Rightarrow> jsval" where
  "js_or a b = (if truthy a then a else b)"

subsection \<open>Strings to numbers\<close>

text \<open>
  \<^verbatim>\<open>Number(s)\<close> on a string, after the language standard's StringNumericLiteral: white
  space is trimmed, the empty string is 0, then a signed decimal literal (digits, an
  optional fraction, an optional exponent), a signed \<open>Infinity\<close>, or an unsigned
  \<open>0x\<close>, \<open>0o\<close>, \<open>0b\<close> literal; anything else is NaN. The value of the literal is
  rounded to the nearest double, ties to the even significand.
\<close>

text \<open>
  The white space and line terminators of the language below 256: tab, line feed,
  vertical tab, form feed, carriage return, space and the no-break space.
\<close>

definition isWhite :: "char \<Rightarrow> bool" where
  "isWhite c =
     (c \<in> {CHR '' '', CHR 0x09, CHR 0x0A, CHR 0x0B, CHR 0x0C, CHR 0x0D, CHR 0xA0})"

definition trim :: "string \<Rightarrow> string" where
  "trim s = rev (dropWhile isWhite (rev (dropWhile isWhite s)))"

definition isDigit :: "char \<Rightarrow> bool" where
  "isDigit c = (c \<in> set ''0123456789'')"

definition isHexDigit :: "char \<Rightarrow> bool" where
  "isHexDigit c = (c \<in> set ''0123456789abcdefABCDEF'')"

definition digitVal :: "char \<Rightarrow> int" where
  "digitVal c =
     (if isDigit c then of_char c - 48
      else if c \<in> set ''abcdef'' then of_char c - 87
      else of_char c - 55)"

definition intOfDigits :: "int \<Rightarrow> string \<Rightarrow> int" where
  "intOfDigits base ds = foldl (\<lambda>a c. a * base + digitVal c) 0 ds"

text \<open>
  Rounding to a double. A double is a multiple of \<open>2^k\<close> by an integer below \<open>2^53\<close>,
  where \<open>k\<close> is 52 below the binary exponent of the value and at least \<open>-1074\<close>; a
  value that rounds to \<open>2^1024\<close> or more is an infinity.
\<close>

function bitLength :: "int \<Rightarrow> int" where
  "bitLength n = (if n \<le> 0 then 0 else 1 + bitLength (n div 2))"
  by pat_completeness auto
termination
  by (relation "measure nat") auto

declare bitLength.simps [simp del]

definition pow2 :: "int \<Rightarrow> rat" where
  "pow2 k = (if 0 \<le> k then of_int (2 ^ nat k) else 1 / of_int (2 ^ nat (- k)))"

text \<open>The binary exponent of a positive rational: the \<open>e\<close> with \<open>2^e \<le> a < 2^(e+1)\<close>.\<close>

definition floorLog2 :: "rat \<Rightarrow> int" where
  "floorLog2 a =
     (case quotient_of a of (p, q) \<Rightarrow>
        (let e = bitLength p - bitLength q
         in if pow2 e \<le> a then e else e - 1))"

definition roundHalfEven :: "rat \<Rightarrow> int" where
  "roundHalfEven x =
     (let f = \<lfloor>x\<rfloor>; d = x - of_int f
      in if d < 1 / 2 then f else if 1 / 2 < d then f + 1 else if even f then f else f + 1)"

definition roundDouble :: "rat \<Rightarrow> jsnum" where
  "roundDouble r =
     (if r = 0 then Fin 0
      else (let a = \<bar>r\<bar>; k = max (floorLog2 a) (- 1022) - 52;
                v = of_int (roundHalfEven (a / pow2 k)) * pow2 k
            in if of_int (2 ^ 1024) \<le> v then (if 0 < r then PosInf else NegInf)
               else Fin (if 0 < r then v else - v)))"

definition exponentPart :: "string \<Rightarrow> int option" where
  "exponentPart t =
     (let (neg, ds) = (case t of
                         c # u \<Rightarrow> if c = CHR ''-'' then (True, u)
                                  else if c = CHR ''+'' then (False, u) else (False, t)
                       | [] \<Rightarrow> (False, t))
      in if ds = [] \<or> \<not> list_all isDigit ds then None
         else Some (if neg then - intOfDigits 10 ds else intOfDigits 10 ds))"

definition StrUnsignedDecimalLiteral :: "string \<Rightarrow> rat option" where
  "StrUnsignedDecimalLiteral s =
     (let ip = takeWhile isDigit s; r1 = dropWhile isDigit s;
          (fp, r2) = (case r1 of
                        c # t \<Rightarrow> if c = CHR ''.'' then (takeWhile isDigit t, dropWhile isDigit t)
                                 else ([], r1)
                      | [] \<Rightarrow> ([], r1));
          ex = (case r2 of
                  [] \<Rightarrow> Some 0
                | c # t \<Rightarrow> if c = CHR ''e'' \<or> c = CHR ''E'' then exponentPart t else None)
      in if ip = [] \<and> fp = [] then None
         else (case ex of
                 None \<Rightarrow> None
               | Some e \<Rightarrow>
                   (let m = of_int (intOfDigits 10 (ip @ fp)); k = e - int (length fp)
                    in Some (if 0 \<le> k then m * of_int (10 ^ nat k)
                             else m / of_int (10 ^ nat (- k))))))"

definition nonDecimalLiteral :: "string \<Rightarrow> jsnum option" where
  "nonDecimalLiteral t =
     (case t of
        a # b # ds \<Rightarrow>
          if a = CHR ''0'' \<and> (b = CHR ''x'' \<or> b = CHR ''X'') then
            Some (if ds \<noteq> [] \<and> list_all isHexDigit ds
                  then roundDouble (of_int (intOfDigits 16 ds)) else NaN)
          else if a = CHR ''0'' \<and> (b = CHR ''o'' \<or> b = CHR ''O'') then
            Some (if ds \<noteq> [] \<and> list_all (\<lambda>c. c \<in> set ''01234567'') ds
                  then roundDouble (of_int (intOfDigits 8 ds)) else NaN)
          else if a = CHR ''0'' \<and> (b = CHR ''b'' \<or> b = CHR ''B'') then
            Some (if ds \<noteq> [] \<and> list_all (\<lambda>c. c \<in> set ''01'') ds
                  then roundDouble (of_int (intOfDigits 2 ds)) else NaN)
          else None
      | _ \<Rightarrow> None)"

definition StringToNumber :: "string \<Rightarrow> jsnum" where
  "StringToNumber s =
     (let t = trim s in
      if t = [] then Fin 0
      else case nonDecimalLiteral t of
        Some n \<Rightarrow> n
      | None \<Rightarrow>
          (let (neg, u) = (if hd t = CHR ''-'' then (True, tl t)
                           else if hd t = CHR ''+'' then (False, tl t) else (False, t))
           in if u = ''Infinity'' then (if neg then NegInf else PosInf)
              else case StrUnsignedDecimalLiteral u of
                None \<Rightarrow> NaN
              | Some r \<Rightarrow> roundDouble (if neg then - r else r)))"

subsection \<open>Values to strings and to numbers\<close>

text \<open>
  \<^verbatim>\<open>String(v)\<close>. The decimal text of a number is the runtime's business
  (\<^verbatim>\<open>Number.prototype.toString\<close>): it is the parameter \<open>n2s\<close>, and nothing proved below
  depends on what it prints. An array is joined with commas, \<open>null\<close> and \<open>undefined\<close>
  elements printing as the empty string. A parsed JSON object prints as
  \<^verbatim>\<open>[object Object]\<close>, unless it has an own property \<open>toString\<close>: a JSON value is never
  callable, so the conversion to a primitive finds no method that returns one and raises
  a TypeError.
\<close>

fun ToString :: "(jsnum \<Rightarrow> string) \<Rightarrow> jsval \<Rightarrow> jserror + string"
  and joinElems :: "(jsnum \<Rightarrow> string) \<Rightarrow> jsval list \<Rightarrow> jserror + string"
  and elemString :: "(jsnum \<Rightarrow> string) \<Rightarrow> jsval \<Rightarrow> jserror + string" where
  "ToString n2s JUndefined = Inr ''undefined''"
| "ToString n2s JNull = Inr ''null''"
| "ToString n2s (JBool b) = Inr (if b then ''true'' else ''false'')"
| "ToString n2s (JNum n) = Inr (n2s n)"
| "ToString n2s (JStr s) = Inr s"
| "ToString n2s (JArr xs) = joinElems n2s xs"
| "ToString n2s (JObj kvs) =
     (if map_of kvs ''toString'' \<noteq> None then Inl TypeError else Inr ''[object Object]'')"
| "joinElems n2s [] = Inr []"
| "joinElems n2s [x] = elemString n2s x"
| "joinElems n2s (x # y # ys) =
     bindE (elemString n2s x) (\<lambda>a. bindE (joinElems n2s (y # ys)) (\<lambda>b. Inr (a @ '','' @ b)))"
| "elemString n2s JUndefined = Inr []"
| "elemString n2s JNull = Inr []"
| "elemString n2s (JBool b) = ToString n2s (JBool b)"
| "elemString n2s (JNum n) = ToString n2s (JNum n)"
| "elemString n2s (JStr s) = ToString n2s (JStr s)"
| "elemString n2s (JArr xs) = ToString n2s (JArr xs)"
| "elemString n2s (JObj kvs) = ToString n2s (JObj kvs)"

text \<open>\<^verbatim>\<open>Number(v)\<close>: an array or an object goes through its string.\<close>

fun ToNumber :: "(jsnum \<Rightarrow> string) \<Rightarrow> jsval \<Rightarrow> jserror + jsnum" where
  "ToNumber n2s JUndefined = Inr NaN"
| "ToNumber n2s JNull = Inr (Fin 0)"
| "ToNumber n2s (JBool b) = Inr (Fin (if b then 1 else 0))"
| "ToNumber n2s (JNum n) = Inr n"
| "ToNumber n2s (JStr s) = Inr (StringToNumber s)"
| "ToNumber n2s (JArr xs) = bindE (ToString n2s (JArr xs)) (\<lambda>s. Inr (StringToNumber s))"
| "ToNumber n2s (JObj kvs) = bindE (ToString n2s (JObj kvs)) (\<lambda>s. Inr (StringToNumber s))"

section \<open>Order documents\<close>

text \<open>
  What is handed to the storage driver: the object literal the source builds, as the
  list of its fields in the order they are written.
\<close>

datatype bson =
    BStr string
  | BNum jsnum
  | BOid string
  | BDate int
  | BArr "bson list"
  | BDoc "(string \<times> bson) list"

text \<open>What \<^verbatim>\<open>buildOrderDoc\<close> returns: \<^verbatim>\<open>{ error }\<close> or \<^verbatim>\<open>{ doc }\<close>.\<close>

datatype outcome = Error string | Doc "(string \<times> bson) list"

subsection \<open>toObjectIdSafe\<close>

text \<open>
  The letters below 256 that have another case, the upper case ones and, in the same
  order, the lower case ones: the letters of ASCII and the accented letters of Latin-1.
  \<^verbatim>\<open>toLowerCase\<close> changes no other code unit below 256.
\<close>

definition upperLetters :: string where
  "upperLetters = ''ABCDEFGHIJKLMNOPQRSTUVWXYZ'' @
     [CHR 0xC0, CHR 0xC1, CHR 0xC2, CHR 0xC3, CHR 0xC4, CHR 0xC5,
      CHR 0xC6, CHR 0xC7, CHR 0xC8, CHR 0xC9, CHR 0xCA, CHR 0xCB,
      CHR 0xCC, CHR 0xCD, CHR 0xCE, CHR 0xCF, CHR 0xD0, CHR 0xD1,
      CHR 0xD2, CHR 0xD3, CHR 0xD4, CHR 0xD5, CHR 0xD6, CHR 0xD8,
      CHR 0xD9, CHR 0xDA, CHR 0xDB, CHR 0xDC, CHR 0xDD, CHR 0xDE]"

definition lowerLetters :: string where
  "lowerLetters = ''abcdefghijklmnopqrstuvwxyz'' @
     [CHR 0xE0, CHR 0xE1, CHR 0xE2, CHR 0xE3, CHR 0xE4, CHR 0xE5,
      CHR 0xE6, CHR 0xE7, CHR 0xE8, CHR 0xE9, CHR 0xEA, CHR 0xEB,
      CHR 0xEC, CHR 0xED, CHR 0xEE, CHR 0xEF, CHR 0xF0, CHR 0xF1,
      CHR 0xF2, CHR 0xF3, CHR 0xF4, CHR 0xF5, CHR 0xF6, CHR 0xF8,
      CHR 0xF9, CHR 0xFA, CHR 0xFB, CHR 0xFC, CHR 0xFD, CHR 0xFE]"

definition lowerChar :: "char \<Rightarrow> char" where
  "lowerChar c = (case map_of (zip upperLetters lowerLetters) c of Some d \<Rightarrow> d | None \<Rightarrow> c)"

definition toLowerCase :: "string \<Rightarrow> string" where
  "toLowerCase s = map lowerChar s"

text \<open>
  Modelled from the spec: the constructor \<^verbatim>\<open>ObjectId\<close> belongs to the storage driver,
  which is not part of the sources. It accepts a string of 24 hexadecimal digits and
  throws on a string of another length or with another character; the identifier it
  builds is written here by its lower-case hexadecimal text.
\<close>

definition ObjectId_valid :: "string \<Rightarrow> bool" where
  "ObjectId_valid s = (length s = 24 \<and> list_all isHexDigit s)"

text \<open>
  \<^verbatim>\<open>try { return new ObjectId(String(id)); } catch { return null; }\<close>: the conversion
  to a string is inside the \<^verbatim>\<open>try\<close>, so its TypeError is caught as well.
\<close>

definition toObjectIdSafe :: "(jsnum \<Rightarrow> string) \<Rightarrow> jsval \<Rightarrow> string option" where
  "toObjectIdSafe n2s v =
     (case ToString n2s v of
        Inl e \<Rightarrow> None
      | Inr s \<Rightarrow> if ObjectId_valid s then Some (toLowerCase s) else None)"

subsection \<open>buildOrderDoc (first server variant)\<close>

text \<open>\<^verbatim>\<open>/^[A-Za-z ]+$/.test(s)\<close> and \<^verbatim>\<open>/^[0-9]+$/.test(s)\<close>.\<close>

definition nameChar :: "char \<Rightarrow> bool" where
  "nameChar c = ((CHR ''A'' \<le> c \<and> c \<le> CHR ''Z'') \<or> (CHR ''a'' \<le> c \<and> c \<le> CHR ''z'') \<or> c = CHR '' '')"

definition name_re_test :: "string \<Rightarrow> bool" where
  "name_re_test s = (s \<noteq> [] \<and> list_all nameChar s)"

definition phone_re_test :: "string \<Rightarrow> bool" where
  "phone_re_test s = (s \<noteq> [] \<and> list_all (\<lambda>c. CHR ''0'' \<le> c \<and> c \<le> CHR ''9'') s)"

fun nameOk :: "jsval \<Rightarrow> bool" where
  "nameOk (JStr s) = name_re_test s"
| "nameOk _ = False"

fun phoneOk :: "jsval \<Rightarrow> bool" where
  "phoneOk (JStr s) = phone_re_test s"
| "phoneOk _ = False"

text \<open>The text of a value that has passed \<^verbatim>\<open>typeof v === 'string'\<close>.\<close>

fun strOf :: "jsval \<Rightarrow> string" where
  "strOf (JStr s) = s"
| "strOf _ = []"

text \<open>\<^verbatim>\<open>Array.isArray(v) && v.length\<close>: the elements of a non-empty array.\<close>

fun nonEmptyArray :: "jsval \<Rightarrow> jsval list option" where
  "nonEmptyArray (JArr (x # xs)) = Some (x # xs)"
| "nonEmptyArray _ = None"

text \<open>\<^verbatim>\<open>Number(it.space)\<close>\<close>

definition itemSpace :: "(jsnum \<Rightarrow> string) \<Rightarrow> jsval \<Rightarrow> jserror + jsnum" where
  "itemSpace n2s it = bindE (getProp it ''space'') (ToNumber n2s)"

text \<open>The \<^verbatim>\<open>for\<close> loop over the items: \<open>False\<close> is its early return of the error.\<close>

fun checkItems :: "(jsnum \<Rightarrow> string) \<Rightarrow> jsval list \<Rightarrow> jserror + bool" where
  "checkItems n2s [] = Inr True"
| "checkItems n2s (it # its) =
     bindE (itemSpace n2s it) (\<lambda>n.
       if \<not> isFinite n \<or> num_le n (Fin 0) then Inr False else checkItems n2s its)"

text \<open>\<^verbatim>\<open>it.lessonId || it.lessonID || it.id\<close>\<close>

definition itemId :: "jsval \<Rightarrow> jserror + jsval" where
  "itemId it =
     bindE (getProp it ''lessonId'') (\<lambda>a.
       if truthy a then Inr a
       else bindE (getProp it ''lessonID'') (\<lambda>b.
         if truthy b then Inr b else getProp it ''id''))"

text \<open>
  \<^verbatim>\<open>oid ? oid : String(id)\<close> in the items, \<^verbatim>\<open>toObjectIdSafe(id) || String(id)\<close> in
  the batch: the second conversion to a string is outside any \<^verbatim>\<open>try\<close>.
\<close>

definition idOrString :: "(jsnum \<Rightarrow> string) \<Rightarrow> jsval \<Rightarrow> jserror + bson" where
  "idOrString n2s v =
     (case toObjectIdSafe n2s v of
        Some h \<Rightarrow> Inr (BOid h)
      | None \<Rightarrow> bindE (ToString n2s v) (\<lambda>s. Inr (BStr s)))"

definition normalizeItem :: "(jsnum \<Rightarrow> string) \<Rightarrow> jsval \<Rightarrow> jserror + bson" where
  "normalizeItem n2s it =
     bindE (itemId it) (\<lambda>v.
     bindE (idOrString n2s v) (\<lambda>ref.
     bindE (itemSpace n2s it) (\<lambda>n.
       Inr (BDoc [(''lessonId'', ref), (''space'', BNum n)]))))"

text \<open>
  The body is destructured after \<^verbatim>\<open>body || {}\<close>; \<open>now\<close> is the clock read by
  \<^verbatim>\<open>new Date()\<close>.
\<close>

definition bodyOrEmpty :: "jsval \<Rightarrow> jsval" where
  "bodyOrEmpty body = js_or body (JObj [])"

definition buildOrderDoc :: "(jsnum \<Rightarrow> string) \<Rightarrow> int \<Rightarrow> jsval \<Rightarrow> jserror + outcome" where
  "buildOrderDoc n2s now body =
     bindE (getProp (bodyOrEmpty body) ''name'') (\<lambda>name.
     bindE (getProp (bodyOrEmpty body) ''phone'') (\<lambda>phone.
     bindE (getProp (bodyOrEmpty body) ''lessonIDs'') (\<lambda>lessonIDs.
     bindE (getProp (bodyOrEmpty body) ''space'') (\<lambda>space.
     bindE (getProp (bodyOrEmpty body) ''items'') (\<lambda>items.
       if \<not> nameOk name \<or> \<not> phoneOk phone then Inr (Error ''Invalid name or phone'')
       else case nonEmptyArray items of
         Some its \<Rightarrow>
           bindE (checkItems n2s its) (\<lambda>ok.
             if \<not> ok then Inr (Error ''Each item.space must be a positive number'')
             else bindE (mapE (normalizeItem n2s) its) (\<lambda>normalized.
               Inr (Doc [(''name'', BStr (strOf name)), (''phone'', BStr (strOf phone)),
                         (''items'', BArr normalized), (''createdAt'', BDate now)])))
       | None \<Rightarrow>
           (case nonEmptyArray lessonIDs of
              Some lids \<Rightarrow>
                if space \<noteq> JUndefined then
                  bindE (ToNumber n2s space) (\<lambda>s.
                    if \<not> isFinite s \<or> num_le s (Fin 0)
                    then Inr (Error ''space must be a positive number'')
                    else bindE (mapE (idOrString n2s) lids) (\<lambda>ids.
                      Inr (Doc [(''name'', BStr (strOf name)), (''phone'', BStr (strOf phone)),
                                (''lessonIDs'', BArr ids), (''space'', BNum s),
                                (''createdAt'', BDate now)])))
                else Inr (Error ''Provide items[] or lessonIDs[] with space'')
            | None \<Rightarrow> Inr (Error ''Provide items[] or lessonIDs[] with space'')))))))"

subsection \<open>buildOrderDoc (second server variant)\<close>

text \<open>
  The other server file has the same prelude and the same item mapping, but no loop
  over the items before the mapping, and its batch branch asks only for an array and a
  supplied \<open>space\<close>, whose number it stores unchecked.
\<close>

fun isArray :: "jsval \<Rightarrow> jsval list option" where
  "isArray (JArr xs) = Some xs"
| "isArray _ = None"

definition buildOrderDoc_basic :: "(jsnum \<Rightarrow> string) \<Rightarrow> int \<Rightarrow> jsval \<Rightarrow> jserror + outcome" where
  "buildOrderDoc_basic n2s now body =
     bindE (getProp (bodyOrEmpty body) ''name'') (\<lambda>name.
     bindE (getProp (bodyOrEmpty body) ''phone'') (\<lambda>phone.
     bindE (getProp (bodyOrEmpty body) ''lessonIDs'') (\<lambda>lessonIDs.
     bindE (getProp (bodyOrEmpty body) ''space'') (\<lambda>space.
     bindE (getProp (bodyOrEmpty body) ''items'') (\<lambda>items.
       if \<not> nameOk name \<or> \<not> phoneOk phone then Inr (Error ''Invalid name or phone'')
       else case nonEmptyArray items of
         Some its \<Rightarrow>
           bindE (mapE (normalizeItem n2s) its) (\<lambda>normalized.
             Inr (Doc [(''name'', BStr (strOf name)), (''phone'', BStr (strOf phone)),
                       (''items'', BArr normalized), (''createdAt'', BDate now)]))
       | None \<Rightarrow>
           (case isArray lessonIDs of
              Some lids \<Rightarrow>
                if space \<noteq> JUndefined then
                  bindE (mapE (idOrString n2s) lids) (\<lambda>ids.
                  bindE (ToNumber n2s space) (\<lambda>s.
                    Inr (Doc [(''name'', BStr (strOf name)), (''phone'', BStr (strOf phone)),
                              (''lessonIDs'', BArr ids), (''space'', BNum s),
                              (''createdAt'', BDate now)])))
                else Inr (Error ''Provide items[] or lessonIDs[] with space'')
            | None \<Rightarrow> Inr (Error ''Provide items[] or lessonIDs[] with space'')))))))"

section \<open>Listing parameters\<close>

text \<open>
  The handler of \<^verbatim>\<open>GET /lessons\<close> reads \<open>limit\<close>, \<open>skip\<close>, \<open>sort\<close> and \<open>order\<close>
  from the parsed query string (an absent parameter is \<open>undefined\<close>) and computes, one
  line each, the limit, the offset, the sort key and the sort direction of the query.
\<close>

text \<open>\<^verbatim>\<open>n || d\<close> on a number: the default replaces 0 and NaN.\<close>

definition num_or :: "jsnum \<Rightarrow> jsnum \<Rightarrow> jsnum" where
  "num_or n d = (if truthy (JNum n) then n else d)"

definition listing_lim :: "(jsnum \<Rightarrow> string) \<Rightarrow> jsval \<Rightarrow> jserror + jsnum" where
  "listing_lim n2s limit =
     bindE (ToNumber n2s limit) (\<lambda>n.
       Inr (Math_min (Fin 100) (Math_max (Fin 1) (num_or n (Fin 50)))))"

definition listing_sk :: "(jsnum \<Rightarrow> string) \<Rightarrow> jsval \<Rightarrow> jserror + jsnum" where
  "listing_sk n2s skip =
     bindE (ToNumber n2s skip) (\<lambda>n. Inr (Math_max (Fin 0) (num_or n (Fin 0))))"

definition sortable :: "string list" where
  "sortable = [''topic'', ''location'', ''price'', ''space'', ''_id'']"

text \<open>
  \<^verbatim>\<open>hasOwnProperty.call(sortable, sort) ? sort : '_id'\<close>, the key being the string
  of \<open>sort\<close>, as it is again when the sort specification is built.
\<close>

definition listing_sortKey :: "(jsnum \<Rightarrow> string) \<Rightarrow> jsval \<Rightarrow> jserror + string" where
  "listing_sortKey n2s sortv =
     bindE (ToString n2s sortv) (\<lambda>k. Inr (if k \<in> set sortable then k else ''_id''))"

definition listing_sortDir :: "(jsnum \<Rightarrow> string) \<Rightarrow> jsval \<Rightarrow> jserror + int" where
  "listing_sortDir n2s orderv =
     bindE (ToString n2s orderv) (\<lambda>s. Inr (if toLowerCase s = ''desc'' then - 1 else 1))"

record listing =
  lim :: jsnum
  sk :: jsnum
  sortKey :: string
  sortDir :: int

definition listingParams ::
  "(jsnum \<Rightarrow> string) \<Rightarrow> jsval \<Rightarrow> jsval \<Rightarrow> jsval \<Rightarrow> jsval \<Rightarrow> jserror + listing" where
  "listingParams n2s limit skip sortv orderv =
     bindE (listing_lim n2s limit) (\<lambda>l.
     bindE (listing_sk n2s skip) (\<lambda>s.
     bindE (listing_sortKey n2s sortv) (\<lambda>k.
     bindE (listing_sortDir n2s orderv) (\<lambda>d.
       Inr \<lparr>lim = l, sk = s, sortKey = k, sortDir = d\<rparr>))))"

text \<open>The decimal digits of a natural number.\<close>

function natText :: "nat \<Rightarrow> string" where
  "natText n = (if n < 10 then [''0123456789'' ! n]
                else natText (n div 10) @ [''0123456789'' ! (n mod 10)])"
  by pat_completeness auto
termination
  by (relation "measure (\<lambda>n. n)") auto

declare natText.simps [simp del]

section \<open>Updating a lesson\<close>

text \<open>
  The handler of \<^verbatim>\<open>PUT /lessons/:id\<close>. The database is the collection of lessons, each
  under its identifier with its other fields, a flag telling whether \<^verbatim>\<open>getDb()\<close>
  succeeds, and the log of the \<^verbatim>\<open>updateOne\<close> calls issued, each with the fields of its
  \<^verbatim>\<open>$set\<close>. A call on a reachable database is taken to succeed, and \<^verbatim>\<open>$set\<close> to
  assign top-level fields.
\<close>

record database =
  reachable :: bool
  lessons :: "string \<rightharpoonup> (string \<times> jsval) list"
  writes :: "(string \<times> (string \<times> jsval) list) list"

datatype payload = ErrorBody string | LessonBody "(string \<times> jsval) list"

datatype response = Response nat payload

text \<open>
  The object \<^verbatim>\<open>update\<close>: its own properties in order of creation, and its prototype
  when that is no longer the default one.
\<close>

record updateObj =
  own :: "(string \<times> jsval) list"
  proto :: "jsval option"

fun setField :: "string \<Rightarrow> jsval \<Rightarrow> (string \<times> jsval) list \<Rightarrow> (string \<times> jsval) list" where
  "setField k v [] = [(k, v)]"
| "setField k v ((k', v') # kvs) =
     (if k' = k then (k, v) # kvs else (k', v') # setField k v kvs)"

text \<open>
  The own enumerable properties \<^verbatim>\<open>Object.assign\<close> copies from a source: the fields of
  an object, the elements of an array and the characters of a string under their
  indices, nothing for the other values.
\<close>

fun indexed :: "nat \<Rightarrow> 'a list \<Rightarrow> (string \<times> 'a) list" where
  "indexed i [] = []"
| "indexed i (x # xs) = (natText i, x) # indexed (Suc i) xs"

fun ownProps :: "jsval \<Rightarrow> (string \<times> jsval) list" where
  "ownProps (JObj kvs) = kvs"
| "ownProps (JArr xs) = indexed 0 xs"
| "ownProps (JStr s) = indexed 0 (map (\<lambda>c. JStr [c]) s)"
| "ownProps _ = []"

text \<open>
  \<^verbatim>\<open>Object.assign\<close> assigns each property to the target. Assigning \<open>__proto__\<close> runs
  the setter inherited from \<^verbatim>\<open>Object.prototype\<close>: an object, an array or \<open>null\<close>
  becomes the prototype of the target, another value is ignored, and no own property is
  created.
\<close>

fun assignProp :: "updateObj \<Rightarrow> string \<times> jsval \<Rightarrow> updateObj" where
  "assignProp u (k, v) =
     (if k = ''__proto__'' then
        (case v of
           JObj kvs \<Rightarrow> u\<lparr>proto := Some v\<rparr>
         | JArr xs \<Rightarrow> u\<lparr>proto := Some v\<rparr>
         | JNull \<Rightarrow> u\<lparr>proto := Some v\<rparr>
         | _ \<Rightarrow> u)
      else u\<lparr>own := setField k v (own u)\<rparr>)"

definition Object_assign :: "jsval \<Rightarrow> updateObj" where
  "Object_assign src = foldl assignProp \<lparr>own = [], proto = None\<rparr> (ownProps src)"

text \<open>
  \<^verbatim>\<open>k in update\<close> and \<^verbatim>\<open>update.k\<close> for the keys \<open>_id\<close> and \<open>space\<close>, which no built-in
  prototype defines: an own property, or an own property of a prototype that is a
  parsed object.
\<close>

definition hasProp :: "updateObj \<Rightarrow> string \<Rightarrow> bool" where
  "hasProp u k =
     (map_of (own u) k \<noteq> None \<or>
      (case proto u of Some (JObj kvs) \<Rightarrow> map_of kvs k \<noteq> None | _ \<Rightarrow> False))"

definition readProp :: "updateObj \<Rightarrow> string \<Rightarrow> jsval" where
  "readProp u k =
     (case map_of (own u) k of
        Some v \<Rightarrow> v
      | None \<Rightarrow> (case proto u of
                    Some (JObj kvs) \<Rightarrow> (case map_of kvs k of Some v \<Rightarrow> v | None \<Rightarrow> JUndefined)
                  | _ \<Rightarrow> JUndefined))"

definition deleteOwn :: "string \<Rightarrow> updateObj \<Rightarrow> updateObj" where
  "deleteOwn k u = u\<lparr>own := filter (\<lambda>kv. fst kv \<noteq> k) (own u)\<rparr>"

text \<open>
  \<^verbatim>\<open>const update = Object.assign({}, req.body); if ('_id' in update) delete update._id;\<close>
\<close>

definition stripped :: "jsval \<Rightarrow> updateObj" where
  "stripped body =
     (if hasProp (Object_assign body) ''_id'' then deleteOwn ''_id'' (Object_assign body)
      else Object_assign body)"

text \<open>
  The lines between the parsing of the identifier and the call of the database: the
  result is the response that ends the request, or the update to write. A TypeError of
  the conversion is caught by the handler and answered with 500.
\<close>

definition prepareUpdate :: "(jsnum \<Rightarrow> string) \<Rightarrow> jsval \<Rightarrow> response + updateObj" where
  "prepareUpdate n2s body =
     (if readProp (stripped body) ''space'' \<noteq> JUndefined \<and> readProp (stripped body) ''space'' \<noteq> JNull then
        (case ToNumber n2s (readProp (stripped body) ''space'') of
           Inl e \<Rightarrow> Inl (Response 500 (ErrorBody ''Failed to update lesson''))
         | Inr n \<Rightarrow>
             if \<not> isFinite n then Inl (Response 400 (ErrorBody ''space must be a number''))
             else Inr ((stripped body)\<lparr>own := setField ''space'' (JNum n) (own (stripped body))\<rparr>))
      else Inr (stripped body))"

text \<open>\<^verbatim>\<open>updateOne({ _id: oid }, { $set: update })\<close>: the number of matched documents.\<close>

definition updateOne :: "database \<Rightarrow> string \<Rightarrow> (string \<times> jsval) list \<Rightarrow> nat \<times> database" where
  "updateOne db oid fs =
     (case lessons db oid of
        None \<Rightarrow> (0, db\<lparr>writes := writes db @ [(oid, fs)]\<rparr>)
      | Some doc \<Rightarrow>
          (1, db\<lparr>lessons := (lessons db)(oid \<mapsto> foldl (\<lambda>d kv. setField (fst kv) (snd kv) d) doc fs),
                 writes := writes db @ [(oid, fs)]\<rparr>))"

definition put_lesson ::
  "(jsnum \<Rightarrow> string) \<Rightarrow> database \<Rightarrow> string \<Rightarrow> jsval \<Rightarrow> response \<times> database" where
  "put_lesson n2s db idp body =
     (if \<not> ObjectId_valid idp then (Response 400 (ErrorBody ''Invalid id''), db)
      else case prepareUpdate n2s body of
        Inl resp \<Rightarrow> (resp, db)
      | Inr u \<Rightarrow>
          if \<not> reachable db then (Response 500 (ErrorBody ''Failed to update lesson''), db)
          else (case updateOne db (toLowerCase idp) (own u) of
                  (matched, db') \<Rightarrow>
                    if matched = 0 then (Response 404 (ErrorBody ''Lesson not found''), db')
                    else (case lessons db' (toLowerCase idp) of
                            Some doc \<Rightarrow> (Response 200 (LessonBody doc), db')
                          | None \<Rightarrow> (Response 200 (LessonBody []), db'))))"

section \<open>Search terms\<close>

text \<open>
  \<^verbatim>\<open>String(s).replace(/[.*+?^${}()|[\]\\]/g, '\\$&')\<close> on a string: a backslash is put
  before each of the fourteen characters of the class.
\<close>

definition regexSpecial :: "char \<Rightarrow> bool" where
  "regexSpecial c = (c \<in> set ''.*+?^${}()|[]'' \<or> c = CHR 0x5C)"

definition escapeRegex :: "string \<Rightarrow> string" where
  "escapeRegex s = concat (map (\<lambda>c. if regexSpecial c then [CHR 0x5C, c] else [c]) s)"

text \<open>
  The search hands the escaped term to a regular expression engine with the flag
  \<open>i\<close>. The engine is not part of the sources; what follows is the fragment of its
  pattern language whose atoms match single characters. Unescaped, the dot is the
  wildcard, \<open>*\<close>, \<open>+\<close> and \<open>?\<close> are quantifiers of the atom before them, \<open>^\<close> and
  \<open>$\<close> are the anchors, \<open>|\<close> separates alternatives, and every character other than
  these and the brackets stands for itself. After a backslash, a character that is not
  an ASCII letter or digit stands for itself; \<open>d\<close>, \<open>D\<close>, \<open>w\<close> and \<open>W\<close> are the
  classes of the digits and of the word characters and their complements. A pattern
  outside the fragment (groups, bracket classes, counted repetition, the other
  escapes) is not interpreted: the result is \<open>None\<close>.
\<close>

datatype atom = Lit char | AnyChar | Digit bool | Word bool

datatype token = TAtom atom | TStar | TPlus | TQuest | TBar | TCaret | TDollar

definition charToken :: "char \<Rightarrow> token option" where
  "charToken c =
     (if c = CHR ''.'' then Some (TAtom AnyChar)
      else if c = CHR ''*'' then Some TStar
      else if c = CHR ''+'' then Some TPlus
      else if c = CHR ''?'' then Some TQuest
      else if c = CHR ''|'' then Some TBar
      else if c = CHR ''^'' then Some TCaret
      else if c = CHR ''$'' then Some TDollar
      else if c \<in> set ''(){}[]'' then None
      else Some (TAtom (Lit c)))"

definition isAlnum :: "char \<Rightarrow> bool" where
  "isAlnum c =
     ((CHR ''0'' \<le> c \<and> c \<le> CHR ''9'') \<or> (CHR ''A'' \<le> c \<and> c \<le> CHR ''Z'') \<or>
      (CHR ''a'' \<le> c \<and> c \<le> CHR ''z''))"

definition escapeToken :: "char \<Rightarrow> token option" where
  "escapeToken c =
     (if \<not> isAlnum c then Some (TAtom (Lit c))
      else if c = CHR ''d'' then Some (TAtom (Digit True))
      else if c = CHR ''D'' then Some (TAtom (Digit False))
      else if c = CHR ''w'' then Some (TAtom (Word True))
      else if c = CHR ''W'' then Some (TAtom (Word False))
      else None)"

fun lexRegex :: "string \<Rightarrow> token list option" where
  "lexRegex [] = Some []"
| "lexRegex [c] =
     (if c = CHR 0x5C then None else map_option (\<lambda>t. [t]) (charToken c))"
| "lexRegex (c # d # ds) =
     (if c = CHR 0x5C then
        (case escapeToken d of
           None \<Rightarrow> None
         | Some t \<Rightarrow> map_option (Cons t) (lexRegex ds))
      else (case charToken c of
              None \<Rightarrow> None
            | Some t \<Rightarrow> map_option (Cons t) (lexRegex (d # ds))))"

datatype quant = Once | Optional | Many | ManyOne

datatype rterm = Atom atom quant | Bol | Eol

text \<open>The alternatives of a pattern, each a sequence of terms.\<close>

fun addTerm :: "rterm \<Rightarrow> rterm list list \<Rightarrow> rterm list list" where
  "addTerm t [] = [[t]]"
| "addTerm t (alt # alts) = (t # alt) # alts"

fun parseTerms :: "token list \<Rightarrow> rterm list list option" where
  "parseTerms [] = Some [[]]"
| "parseTerms (TBar # ts) = map_option (Cons []) (parseTerms ts)"
| "parseTerms (TCaret # ts) = map_option (addTerm Bol) (parseTerms ts)"
| "parseTerms (TDollar # ts) = map_option (addTerm Eol) (parseTerms ts)"
| "parseTerms (TStar # ts) = None"
| "parseTerms (TPlus # ts) = None"
| "parseTerms (TQuest # ts) = None"
| "parseTerms (TAtom a # TStar # ts) = map_option (addTerm (Atom a Many)) (parseTerms ts)"
| "parseTerms (TAtom a # TPlus # ts) = map_option (addTerm (Atom a ManyOne)) (parseTerms ts)"
| "parseTerms (TAtom a # TQuest # ts) = map_option (addTerm (Atom a Optional)) (parseTerms ts)"
| "parseTerms (TAtom a # ts) = map_option (addTerm (Atom a Once)) (parseTerms ts)"

text \<open>
  With the flag \<open>i\<close> a character matches a literal when the two have the same
  canonical form, which two code units below 256 have exactly when they have the same
  lower case. The dot matches every character but a line terminator.
\<close>

definition wordChar :: "char \<Rightarrow> bool" where
  "wordChar c = (isAlnum c \<or> c = CHR ''_'')"

fun atomMatches :: "atom \<Rightarrow> char \<Rightarrow> bool" where
  "atomMatches (Lit d) c = (lowerChar c = lowerChar d)"
| "atomMatches AnyChar c = (c \<noteq> CHR 0x0A \<and> c \<noteq> CHR 0x0D)"
| "atomMatches (Digit b) c = ((CHR ''0'' \<le> c \<and> c \<le> CHR ''9'') = b)"
| "atomMatches (Word b) c = (wordChar c = b)"

text \<open>
  Whether a sequence of terms matches a prefix of the rest of the input; the flag tells
  whether the rest is the whole input.
\<close>

fun matchTerms :: "bool \<Rightarrow> rterm list \<Rightarrow> string \<Rightarrow> bool" where
  "matchTerms b [] s = True"
| "matchTerms b (Bol # ts) s = (b \<and> matchTerms b ts s)"
| "matchTerms b (Eol # ts) s = (s = [] \<and> matchTerms b ts s)"
| "matchTerms b (Atom a Once # ts) [] = False"
| "matchTerms b (Atom a Once # ts) (c # cs) = (atomMatches a c \<and> matchTerms False ts cs)"
| "matchTerms b (Atom a Optional # ts) [] = matchTerms b ts []"
| "matchTerms b (Atom a Optional # ts) (c # cs) =
     ((atomMatches a c \<and> matchTerms False ts cs) \<or> matchTerms b ts (c # cs))"
| "matchTerms b (Atom a Many # ts) [] = matchTerms b ts []"
| "matchTerms b (Atom a Many # ts) (c # cs) =
     ((atomMatches a c \<and> matchTerms False (Atom a Many # ts) cs) \<or> matchTerms b ts (c # cs))"
| "matchTerms b (Atom a ManyOne # ts) [] = False"
| "matchTerms b (Atom a ManyOne # ts) (c # cs) =
     (atomMatches a c \<and> matchTerms False (Atom a Many # ts) cs)"

text \<open>A pattern is searched for: it may match at any position of the input.\<close>

fun searchFrom :: "bool \<Rightarrow> rterm list list \<Rightarrow> string \<Rightarrow> bool" where
  "searchFrom b alts [] = list_ex (\<lambda>alt. matchTerms b alt []) alts"
| "searchFrom b alts (c # cs) =
     (list_ex (\<lambda>alt. matchTerms b alt (c # cs)) alts \<or> searchFrom False alts cs)"

definition RegExp_test :: "string \<Rightarrow> string \<Rightarrow> bool option" where
  "RegExp_test pattern s =
     (case lexRegex pattern of
        None \<Rightarrow> None
      | Some ts \<Rightarrow> (case parseTerms ts of
                      None \<Rightarrow> None
                    | Some alts \<Rightarrow> Some (searchFrom True alts s)))"

section \<open>Vocabulary of the properties\<close>

text \<open>The value the destructuring binds to a field of the body.\<close>

definition bodyField :: "jsval \<Rightarrow> string \<Rightarrow> jsval" where
  "bodyField body k = (case getProp (bodyOrEmpty body) k of Inr v \<Rightarrow> v | Inl e \<Rightarrow> JUndefined)"

definition isAsciiLetter :: "char \<Rightarrow> bool" where
  "isAsciiLetter c = (c \<in> set ''ABCDEFGHIJKLMNOPQRSTUVWXYZabcdefghijklmnopqrstuvwxyz'')"

text \<open>The ASCII punctuation marks, by their codes: \<open>!\<close> to \<open>/\<close>, \<open>:\<close> to \<open>@\<close>, \<open>[\<close> to the back quote, \<open>{\<close> to \<open>~\<close>.\<close>

definition isAsciiPunct :: "char \<Rightarrow> bool" where
  "isAsciiPunct c =
     ((33 \<le> (of_char c :: nat) \<and> (of_char c :: nat) \<le> 47) \<or>
      (58 \<le> (of_char c :: nat) \<and> (of_char c :: nat) \<le> 64) \<or>
      (91 \<le> (of_char c :: nat) \<and> (of_char c :: nat) \<le> 96) \<or>
      (123 \<le> (of_char c :: nat) \<and> (of_char c :: nat) \<le> 126))"

text \<open>What is stored for an identifier given as a string: the identifier, or the string.\<close>

definition storedRef :: "string \<Rightarrow> bson" where
  "storedRef s = (if ObjectId_valid s then BOid (toLowerCase s) else BStr s)"

text \<open>The string of a value whose conversion does not raise.\<close>

definition stringOf :: "(jsnum \<Rightarrow> string) \<Rightarrow> jsval \<Rightarrow> string" where
  "stringOf n2s v = (case ToString n2s v of Inr s \<Rightarrow> s | Inl e \<Rightarrow> [])"

text \<open>The value of a property read that does not raise.\<close>

definition propOf :: "jsval \<Rightarrow> string \<Rightarrow> jsval" where
  "propOf v k = (case getProp v k of Inr x \<Rightarrow> x | Inl e \<Rightarrow> JUndefined)"

text \<open>The lesson reference and the space of an item, and the element stored for it.\<close>

definition theId :: "jsval \<Rightarrow> jsval" where
  "theId it = (case itemId it of Inr v \<Rightarrow> v | Inl e \<Rightarrow> JUndefined)"

definition theSpace :: "(jsnum \<Rightarrow> string) \<Rightarrow> jsval \<Rightarrow> jsnum" where
  "theSpace n2s it = (case itemSpace n2s it of Inr n \<Rightarrow> n | Inl e \<Rightarrow> NaN)"

definition storedItem :: "(jsnum \<Rightarrow> string) \<Rightarrow> jsval \<Rightarrow> bson" where
  "storedItem n2s it =
     BDoc [(''lessonId'', storedRef (stringOf n2s (theId it))), (''space'', BNum (theSpace n2s it))]"

fun isRef :: "bson \<Rightarrow> bool" where
  "isRef (BOid h) = True"
| "isRef (BStr s) = True"
| "isRef _ = False"

text \<open>
  A printer of numbers for the closed examples: on NaN, the infinities and the integers
  it prints what \<^verbatim>\<open>Number.prototype.toString\<close> prints (for an integer below \<open>10^21\<close> in
  magnitude); the examples print no other number.
\<close>

fun printInteger :: "jsnum \<Rightarrow> string" where
  "printInteger NaN = ''NaN''"
| "printInteger PosInf = ''Infinity''"
| "printInteger NegInf = ''-Infinity''"
| "printInteger (Fin r) =
     (case quotient_of r of (p, q) \<Rightarrow>
        if q = 1 then (if p < 0 then ''-'' else []) @ natText (nat \<bar>p\<bar>) else [])"



section \<open>Basic facts\<close>

lemma bindE_simps [simp]:
  "bindE (Inl e) f = Inl e"
  "bindE (Inr x) f = f x"
  by (simp_all add: bindE_def)

lemma not_raise_iff: "(x \<noteq> Inl TypeError) = (\<exists>y. x = Inr y)"
  by (cases x) (auto intro: jserror.exhaust)

lemma getProp_bodyOrEmpty: "getProp (bodyOrEmpty body) k = Inr (bodyField body k)"
  by (cases body rule: truthy.cases) (simp_all add: bodyField_def bodyOrEmpty_def js_or_def)

lemma source_test:
  "(\<not> isFinite n \<or> num_le n (Fin 0)) = (\<not> positiveFinite n)"
  "(isFinite n \<longrightarrow> num_le n (Fin 0)) = (\<not> positiveFinite n)"
  by (cases n; auto)+

lemma nonEmptyArray_JArr: "its \<noteq> [] \<Longrightarrow> nonEmptyArray (JArr its) = Some its"
  by (cases its) simp_all

lemmas eval_defs =
  buildOrderDoc_def buildOrderDoc_basic_def bodyOrEmpty_def js_or_def bodyField_def
  name_re_test_def nameChar_def phone_re_test_def itemSpace_def itemId_def
  idOrString_def toObjectIdSafe_def ObjectId_valid_def normalizeItem_def
  isHexDigit_def isDigit_def toLowerCase_def lowerChar_def upperLetters_def lowerLetters_def
  storedRef_def

subsection \<open>Numbers of strings\<close>

text \<open>
  Some values of \<^verbatim>\<open>Number\<close> on strings: integers, a string that is no number, white
  space around the digits, the no-break space among it, and a literal that is no double
  and is rounded to one.
\<close>

lemma StringToNumber_integers:
  "StringToNumber ''0'' = Fin 0"
  "StringToNumber ''7'' = Fin 7"
  "StringToNumber ''20'' = Fin 20"
  "StringToNumber ''500'' = Fin 500"
  "StringToNumber ''-5'' = Fin (- 5)"
  "StringToNumber ''-2'' = Fin (- 2)"
  by code_simp+

lemma StringToNumber_not_numeric:
  "StringToNumber ''abc'' = NaN"
  "StringToNumber ''many'' = NaN"
  by code_simp+

lemma StringToNumber_white_space:
  "StringToNumber '' 7 '' = Fin 7"
  "StringToNumber [CHR 0xA0, CHR ''7''] = Fin 7"
  "StringToNumber [CHR 0x09, CHR 0xA0] = Fin 0"
  by code_simp+

lemma StringToNumber_rounds:
  "StringToNumber ''9007199254740993'' = Fin 9007199254740992"
  by code_simp

subsection \<open>The character classes of the two patterns\<close>

lemma nameChar_iff: "nameChar c = (isAsciiLetter c \<or> c = CHR '' '')"
  apply (cases c)
  subgoal for a b c d e f g h
    by (cases a; cases b; cases c; cases d; cases e; cases f; cases g; cases h;
        simp add: nameChar_def isAsciiLetter_def less_eq_char_def)
  done

lemma digit_range_iff: "(CHR ''0'' \<le> c \<and> c \<le> CHR ''9'') = isDigit c"
  apply (cases c)
  subgoal for a b c d e f g h
    by (cases a; cases b; cases c; cases d; cases e; cases f; cases g; cases h;
        simp add: isDigit_def less_eq_char_def)
  done

lemma digit_not_nameChar: "isDigit c \<Longrightarrow> \<not> nameChar c"
  by (auto simp: isDigit_def nameChar_def)

lemma punct_not_nameChar: "isAsciiPunct c \<Longrightarrow> \<not> nameChar c"
  by (auto simp: isAsciiPunct_def nameChar_def less_eq_char_def)

lemma nameOk_iff:
  "nameOk v \<longleftrightarrow> (\<exists>s. v = JStr s \<and> s \<noteq> [] \<and> (\<forall>c\<in>set s. isAsciiLetter c \<or> c = CHR '' ''))"
  by (cases v) (auto simp: name_re_test_def list_all_iff nameChar_iff)

lemma phoneOk_iff:
  "phoneOk v \<longleftrightarrow> (\<exists>s. v = JStr s \<and> s \<noteq> [] \<and> (\<forall>c\<in>set s. isDigit c))"
  by (cases v) (auto simp: phone_re_test_def list_all_iff digit_range_iff)

lemma buildOrderDoc_invalid:
  "\<not> nameOk (bodyField body ''name'') \<or> \<not> phoneOk (bodyField body ''phone'') \<Longrightarrow>
   buildOrderDoc n2s now body = Inr (Error ''Invalid name or phone'')"
  by (simp add: buildOrderDoc_def getProp_bodyOrEmpty)

section \<open>The Input Validator\<close>

text \<open>
  Claim C5. A name is accepted exactly when it is a non-empty string of ASCII letters
  and spaces, a phone exactly when it is a non-empty string of digits. So a string with
  a digit or a punctuation mark is no name, nor is the empty string, nor a value that is
  not a string; and a body whose name or phone is missing, not a string or an invalid
  string gets one and the same answer, the error \<open>Invalid name or phone\<close>.
\<close>

theorem validator_accepts_exactly:
  "(nameOk v \<longleftrightarrow> (\<exists>s. v = JStr s \<and> s \<noteq> [] \<and> (\<forall>c\<in>set s. isAsciiLetter c \<or> c = CHR '' '')))
   \<and> (phoneOk v \<longleftrightarrow> (\<exists>s. v = JStr s \<and> s \<noteq> [] \<and> (\<forall>c\<in>set s. isDigit c)))
   \<and> ((\<exists>c\<in>set t. isDigit c \<or> isAsciiPunct c) \<longrightarrow> \<not> nameOk (JStr t))
   \<and> \<not> nameOk (JStr [])
   \<and> ((\<forall>s. w \<noteq> JStr s) \<longrightarrow> \<not> nameOk w \<and> \<not> phoneOk w)
   \<and> (\<not> nameOk (bodyField body ''name'') \<or> \<not> phoneOk (bodyField body ''phone'') \<longrightarrow>
        buildOrderDoc n2s now body = Inr (Error ''Invalid name or phone''))"
proof (intro conjI impI)
  show "nameOk v \<longleftrightarrow> (\<exists>s. v = JStr s \<and> s \<noteq> [] \<and> (\<forall>c\<in>set s. isAsciiLetter c \<or> c = CHR '' ''))"
    by (rule nameOk_iff)
  show "phoneOk v \<longleftrightarrow> (\<exists>s. v = JStr s \<and> s \<noteq> [] \<and> (\<forall>c\<in>set s. isDigit c))"
    by (rule phoneOk_iff)
  show "\<not> nameOk (JStr [])"
    by (simp add: name_re_test_def)
next
  assume "\<exists>c\<in>set t. isDigit c \<or> isAsciiPunct c"
  then obtain c where "c \<in> set t" "\<not> nameChar c"
    using digit_not_nameChar punct_not_nameChar by blast
  then show "\<not> nameOk (JStr t)"
    by (auto simp: name_re_test_def list_all_iff)
next
  assume "\<forall>s. w \<noteq> JStr s"
  then show "\<not> nameOk w" by (cases w) auto
next
  assume "\<forall>s. w \<noteq> JStr s"
  then show "\<not> phoneOk w" by (cases w) auto
next
  assume "\<not> nameOk (bodyField body ''name'') \<or> \<not> phoneOk (bodyField body ''phone'')"
  then show "buildOrderDoc n2s now body = Inr (Error ''Invalid name or phone'')"
    by (rule buildOrderDoc_invalid)
qed

theorem validator_accepts_exactly_witness:
  "nameOk (JStr ''Jane Doe'') \<and> phoneOk (JStr ''12345'')
   \<and> \<not> nameOk (JStr ''J4ne'') \<and> \<not> nameOk (JStr ''Jane-Doe'') \<and> \<not> nameOk (JNum (Fin 7))
   \<and> buildOrderDoc printInteger 0 (JObj [(''phone'', JStr ''12345'')])
       = Inr (Error ''Invalid name or phone'')
   \<and> buildOrderDoc printInteger 0 (JObj [(''name'', JStr ''J4ne''), (''phone'', JStr ''12345'')])
       = Inr (Error ''Invalid name or phone'')"
proof -
  have a: "\<forall>c\<in>set ''Jane Doe''. isAsciiLetter c \<or> c = CHR '' ''"
    by (simp add: isAsciiLetter_def)
  have b: "\<forall>c\<in>set ''12345''. isDigit c"
    by (simp add: isDigit_def)
  have c: "\<exists>c\<in>set ''J4ne''. isDigit c \<or> isAsciiPunct c"
    by (simp add: isDigit_def)
  have d: "\<exists>c\<in>set ''Jane-Doe''. isDigit c \<or> isAsciiPunct c"
    by (simp add: isAsciiPunct_def)
  have e: "\<not> nameOk (bodyField (JObj [(''phone'', JStr ''12345'')]) ''name'')"
    by (simp add: eval_defs)
  have f: "\<not> nameOk (bodyField (JObj [(''name'', JStr ''J4ne''), (''phone'', JStr ''12345'')]) ''name'')"
    by (simp add: eval_defs)
  note v1 = validator_accepts_exactly
    [of "JStr ''Jane Doe''" "''J4ne''" "JNum (Fin 7)" "JObj [(''phone'', JStr ''12345'')]" printInteger 0]
  note v2 = validator_accepts_exactly
    [of "JStr ''12345''" "''Jane-Doe''" "JNum (Fin 7)"
        "JObj [(''name'', JStr ''J4ne''), (''phone'', JStr ''12345'')]" printInteger 0]
  from v1 a c e v2 b d f show ?thesis by blast
qed

section \<open>The Order Normalizer\<close>

subsection \<open>The loop over the items and the two branches\<close>

lemma checkItems_Cons:
  "checkItems n2s (it # its) =
     bindE (itemSpace n2s it) (\<lambda>n. if positiveFinite n then checkItems n2s its else Inr False)"
  by (cases "itemSpace n2s it") (simp_all add: source_test)

lemma checkItems_True_iff:
  "checkItems n2s its = Inr True \<longleftrightarrow>
     (\<forall>it\<in>set its. \<exists>n. itemSpace n2s it = Inr n \<and> positiveFinite n)"
proof (induction its)
  case Nil
  show ?case by simp
next
  case (Cons it its)
  show ?case
  proof (cases "itemSpace n2s it")
    case (Inl e)
    then show ?thesis by (simp add: checkItems_Cons del: checkItems.simps)
  next
    case (Inr n)
    then show ?thesis using Cons.IH by (simp add: checkItems_Cons del: checkItems.simps)
  qed
qed

lemma checkItems_violation:
  "i < length its \<Longrightarrow> \<forall>it\<in>set (take (Suc i) its). itemSpace n2s it \<noteq> Inl TypeError \<Longrightarrow>
   itemSpace n2s (its ! i) = Inr n \<Longrightarrow> \<not> positiveFinite n \<Longrightarrow> checkItems n2s its = Inr False"
proof (induction its arbitrary: i)
  case Nil
  then show ?case by simp
next
  case (Cons it its)
  from Cons.prems(2) obtain m where m: "itemSpace n2s it = Inr m"
    by (auto simp: not_raise_iff)
  show ?case
  proof (cases i)
    case 0
    with Cons.prems m show ?thesis by (simp add: checkItems_Cons del: checkItems.simps)
  next
    case (Suc j)
    with Cons.prems have "checkItems n2s its = Inr False"
      by (intro Cons.IH [of j]) auto
    with m show ?thesis by (simp add: checkItems_Cons del: checkItems.simps)
  qed
qed

lemma buildOrderDoc_items:
  assumes "nameOk (bodyField body ''name'')" "phoneOk (bodyField body ''phone'')"
    and "bodyField body ''items'' = JArr its" "its \<noteq> []"
  shows "buildOrderDoc n2s now body =
     bindE (checkItems n2s its) (\<lambda>ok.
       if \<not> ok then Inr (Error ''Each item.space must be a positive number'')
       else bindE (mapE (normalizeItem n2s) its) (\<lambda>normalized.
         Inr (Doc [(''name'', BStr (strOf (bodyField body ''name''))),
                   (''phone'', BStr (strOf (bodyField body ''phone''))),
                   (''items'', BArr normalized), (''createdAt'', BDate now)])))"
  using assms by (simp add: buildOrderDoc_def getProp_bodyOrEmpty nonEmptyArray_JArr)

lemma buildOrderDoc_batch:
  assumes "nameOk (bodyField body ''name'')" "phoneOk (bodyField body ''phone'')"
    and "nonEmptyArray (bodyField body ''items'') = None"
    and "bodyField body ''lessonIDs'' = JArr lids" "lids \<noteq> []"
    and "bodyField body ''space'' \<noteq> JUndefined"
  shows "buildOrderDoc n2s now body =
     bindE (ToNumber n2s (bodyField body ''space'')) (\<lambda>s.
       if \<not> positiveFinite s then Inr (Error ''space must be a positive number'')
       else bindE (mapE (idOrString n2s) lids) (\<lambda>ids.
         Inr (Doc [(''name'', BStr (strOf (bodyField body ''name''))),
                   (''phone'', BStr (strOf (bodyField body ''phone''))),
                   (''lessonIDs'', BArr ids), (''space'', BNum s),
                   (''createdAt'', BDate now)])))"
  using assms
  by (simp add: buildOrderDoc_def getProp_bodyOrEmpty nonEmptyArray_JArr source_test)

lemma idOrString_eq:
  "idOrString n2s v = bindE (ToString n2s v) (\<lambda>s. Inr (storedRef s))"
  by (cases "ToString n2s v") (simp_all add: idOrString_def toObjectIdSafe_def storedRef_def)

lemma normalizeItem_eq:
  "normalizeItem n2s it =
     bindE (itemId it) (\<lambda>v. bindE (ToString n2s v) (\<lambda>s. bindE (itemSpace n2s it) (\<lambda>n.
       Inr (BDoc [(''lessonId'', storedRef s), (''space'', BNum n)]))))"
proof (cases "itemId it")
  case (Inl e)
  then show ?thesis by (simp add: normalizeItem_def)
next
  case (Inr v)
  then show ?thesis
    by (cases "ToString n2s v") (simp_all add: normalizeItem_def idOrString_eq)
qed

lemma itemId_total: "itemSpace n2s it = Inr n \<Longrightarrow> \<exists>v. itemId it = Inr v"
  by (cases it) (simp_all add: itemSpace_def itemId_def)

subsection \<open>Items whose space is not a positive number\<close>

text \<open>
  What the loop does when nothing raises. Let the name and the phone be valid and
  \<open>items\<close> be an array. If the space of some element converts to a number that is not
  finite and positive, and the space of that element and of every element before it is
  read and converted without a TypeError, the payload is rejected with
  \<open>Each item.space must be a positive number\<close>. And as soon as some element of a
  non-empty \<open>items\<close> has no space that converts to a finite positive number, no
  document is produced.
\<close>

lemma item_space_violation_rejected:
  assumes "nameOk (bodyField body ''name'')" and "phoneOk (bodyField body ''phone'')"
    and "bodyField body ''items'' = JArr its"
  shows "(i < length its \<and> (\<forall>it\<in>set (take (Suc i) its). itemSpace n2s it \<noteq> Inl TypeError)
          \<and> itemSpace n2s (its ! i) = Inr n \<and> \<not> positiveFinite n \<longrightarrow>
            buildOrderDoc n2s now body = Inr (Error ''Each item.space must be a positive number''))
       \<and> ((\<exists>it\<in>set its. \<forall>m. itemSpace n2s it = Inr m \<longrightarrow> \<not> positiveFinite m) \<longrightarrow>
            (\<forall>d. buildOrderDoc n2s now body \<noteq> Inr (Doc d)))"
proof (intro conjI impI)
  assume a: "i < length its \<and> (\<forall>it\<in>set (take (Suc i) its). itemSpace n2s it \<noteq> Inl TypeError)
          \<and> itemSpace n2s (its ! i) = Inr n \<and> \<not> positiveFinite n"
  then have ne: "its \<noteq> []" by auto
  from a have "checkItems n2s its = Inr False"
    by (intro checkItems_violation [of i its n2s n]) auto
  then show "buildOrderDoc n2s now body = Inr (Error ''Each item.space must be a positive number'')"
    by (simp add: buildOrderDoc_items [OF assms ne])
next
  assume b: "\<exists>it\<in>set its. \<forall>m. itemSpace n2s it = Inr m \<longrightarrow> \<not> positiveFinite m"
  then have ne: "its \<noteq> []" by auto
  from b have nt: "checkItems n2s its \<noteq> Inr True"
    by (auto simp: checkItems_True_iff)
  show "\<forall>d. buildOrderDoc n2s now body \<noteq> Inr (Doc d)"
  proof (cases "checkItems n2s its")
    case (Inl e)
    then show ?thesis by (simp add: buildOrderDoc_items [OF assms ne])
  next
    case (Inr ok)
    with nt have "\<not> ok" by auto
    with Inr show ?thesis by (simp add: buildOrderDoc_items [OF assms ne])
  qed
qed

lemma item_space_violation_rejected_example:
  "buildOrderDoc printInteger 0
     (JObj [(''name'', JStr ''Jane Doe''), (''phone'', JStr ''12345''),
            (''items'', JArr [JObj [(''lessonId'', JStr ''a''), (''space'', JNum (Fin 1))],
                              JObj [(''lessonId'', JStr ''b''), (''space'', JNum (Fin 0))]])])
   = Inr (Error ''Each item.space must be a positive number'')"
proof -
  let ?its = "[JObj [(''lessonId'', JStr ''a''), (''space'', JNum (Fin 1))],
               JObj [(''lessonId'', JStr ''b''), (''space'', JNum (Fin 0))]]"
  let ?b = "JObj [(''name'', JStr ''Jane Doe''), (''phone'', JStr ''12345''), (''items'', JArr ?its)]"
  have 1: "nameOk (bodyField ?b ''name'')" by (simp add: eval_defs)
  have 2: "phoneOk (bodyField ?b ''phone'')" by (simp add: eval_defs)
  have 3: "bodyField ?b ''items'' = JArr ?its" by (simp add: eval_defs)
  have 4: "1 < length ?its \<and> (\<forall>it\<in>set (take (Suc 1) ?its). itemSpace printInteger it \<noteq> Inl TypeError)
          \<and> itemSpace printInteger (?its ! 1) = Inr (Fin 0) \<and> \<not> positiveFinite (Fin 0)"
    by (simp add: itemSpace_def)
  from item_space_violation_rejected [OF 1 2 3, of 1 printInteger "Fin 0" 0] 4
  show ?thesis by blast
qed

text \<open>
  Claim C1. A payload with a valid name and phone and a non-empty \<open>items\<close> is to be
  rejected with \<open>Each item.space must be a positive number\<close> as soon as the space of
  one of its elements does not convert to a finite positive number. The code does not
  do so when an element before the offending one is \<open>null\<close>: for the items
  \<open>[null, {space: 0}]\<close> the read of \<open>space\<close> from \<open>null\<close> raises a TypeError, the
  loop returns no error message, and the route answers 500 instead of 400.
\<close>

theorem buildOrderDoc_null_item_raises:
  "nameOk (JStr ''Jane Doe'') \<and> phoneOk (JStr ''12345'')
   \<and> itemSpace printInteger (JObj [(''space'', JNum (Fin 0))]) = Inr (Fin 0)
   \<and> \<not> positiveFinite (Fin 0)
   \<and> buildOrderDoc printInteger 0
       (JObj [(''name'', JStr ''Jane Doe''), (''phone'', JStr ''12345''),
              (''items'', JArr [JNull, JObj [(''space'', JNum (Fin 0))]])])
     = Inl TypeError
   \<and> buildOrderDoc printInteger 0
       (JObj [(''name'', JStr ''Jane Doe''), (''phone'', JStr ''12345''),
              (''items'', JArr [JNull, JObj [(''space'', JNum (Fin 0))]])])
     \<noteq> Inr (Error ''Each item.space must be a positive number'')"
  by (simp add: eval_defs)

theorem buildOrderDoc_null_item_raises_witness:
  "buildOrderDoc printInteger 0
       (JObj [(''name'', JStr ''Jane Doe''), (''phone'', JStr ''12345''),
              (''items'', JArr [JNull, JObj [(''space'', JNum (Fin 0))]])])
     = Inl TypeError"
  using buildOrderDoc_null_item_raises by blast

subsection \<open>The batch shape\<close>

lemma mapE_idOrString:
  "\<forall>v\<in>set lids. ToString n2s v \<noteq> Inl TypeError \<Longrightarrow>
   mapE (idOrString n2s) lids = Inr (map (\<lambda>v. storedRef (stringOf n2s v)) lids)"
proof (induction lids)
  case Nil
  show ?case by simp
next
  case (Cons v lids)
  then obtain s where "ToString n2s v = Inr s" by (auto simp: not_raise_iff)
  with Cons show ?case by (simp add: idOrString_eq stringOf_def)
qed

text \<open>
  What the batch branch does when nothing raises. Let the name and the phone be valid,
  \<open>items\<close> be absent or the empty array, \<open>lessonIDs\<close> be a non-empty array and
  \<open>space\<close> be supplied, and let the conversion of \<open>space\<close> to a number give \<open>n\<close>.
  If \<open>n\<close> is not finite and positive, the payload is rejected with
  \<open>space must be a positive number\<close>. Otherwise, provided no entry of \<open>lessonIDs\<close>
  raises when converted to a string, the result is the batch document: name, phone, the
  entries as identifiers or strings, the number \<open>n\<close> as \<open>space\<close>, and the creation
  time.
\<close>

lemma batch_space_checked:
  assumes "nameOk (bodyField body ''name'')" and "phoneOk (bodyField body ''phone'')"
    and "bodyField body ''items'' = JUndefined \<or> bodyField body ''items'' = JArr []"
    and "bodyField body ''lessonIDs'' = JArr lids" and "lids \<noteq> []"
    and "bodyField body ''space'' \<noteq> JUndefined"
    and "ToNumber n2s (bodyField body ''space'') = Inr n"
  shows "(\<not> positiveFinite n \<longrightarrow>
            buildOrderDoc n2s now body = Inr (Error ''space must be a positive number''))
       \<and> (positiveFinite n \<and> (\<forall>v\<in>set lids. ToString n2s v \<noteq> Inl TypeError) \<longrightarrow>
            buildOrderDoc n2s now body =
              Inr (Doc [(''name'', BStr (strOf (bodyField body ''name''))),
                        (''phone'', BStr (strOf (bodyField body ''phone''))),
                        (''lessonIDs'', BArr (map (\<lambda>v. storedRef (stringOf n2s v)) lids)),
                        (''space'', BNum n), (''createdAt'', BDate now)]))"
proof -
  from assms(3) have ni: "nonEmptyArray (bodyField body ''items'') = None" by auto
  note eq = buildOrderDoc_batch [OF assms(1,2) ni assms(4,5,6), of n2s now]
  show ?thesis
  proof (intro conjI impI)
    assume "\<not> positiveFinite n"
    with assms(7) show "buildOrderDoc n2s now body = Inr (Error ''space must be a positive number'')"
      by (simp add: eq)
  next
    assume a: "positiveFinite n \<and> (\<forall>v\<in>set lids. ToString n2s v \<noteq> Inl TypeError)"
    then have "mapE (idOrString n2s) lids = Inr (map (\<lambda>v. storedRef (stringOf n2s v)) lids)"
      by (intro mapE_idOrString) simp
    with a assms(7) show "buildOrderDoc n2s now body =
              Inr (Doc [(''name'', BStr (strOf (bodyField body ''name''))),
                        (''phone'', BStr (strOf (bodyField body ''phone''))),
                        (''lessonIDs'', BArr (map (\<lambda>v. storedRef (stringOf n2s v)) lids)),
                        (''space'', BNum n), (''createdAt'', BDate now)])"
      by (simp add: eq)
  qed
qed

lemma batch_space_checked_example:
  "buildOrderDoc printInteger 0
     (JObj [(''name'', JStr ''Jane Doe''), (''phone'', JStr ''12345''),
            (''lessonIDs'', JArr [JStr ''65a1b2c3d4e5f60718293a4B'']), (''space'', JNum (Fin 2))])
   = Inr (Doc [(''name'', BStr ''Jane Doe''), (''phone'', BStr ''12345''),
               (''lessonIDs'', BArr [BOid ''65a1b2c3d4e5f60718293a4b'']),
               (''space'', BNum (Fin 2)), (''createdAt'', BDate 0)])
   \<and> buildOrderDoc printInteger 0
     (JObj [(''name'', JStr ''Jane Doe''), (''phone'', JStr ''12345''),
            (''lessonIDs'', JArr [JStr ''65a1b2c3d4e5f60718293a4B'']), (''space'', JStr ''-2'')])
   = Inr (Error ''space must be a positive number'')"
proof -
  let ?lids = "[JStr ''65a1b2c3d4e5f60718293a4B'']"
  let ?b = "JObj [(''name'', JStr ''Jane Doe''), (''phone'', JStr ''12345''),
                  (''lessonIDs'', JArr ?lids), (''space'', JNum (Fin 2))]"
  let ?c = "JObj [(''name'', JStr ''Jane Doe''), (''phone'', JStr ''12345''),
                  (''lessonIDs'', JArr ?lids), (''space'', JStr ''-2'')]"
  have b: "nameOk (bodyField ?b ''name'')" "phoneOk (bodyField ?b ''phone'')"
    "bodyField ?b ''items'' = JUndefined \<or> bodyField ?b ''items'' = JArr []"
    "bodyField ?b ''lessonIDs'' = JArr ?lids" "?lids \<noteq> []"
    "bodyField ?b ''space'' \<noteq> JUndefined"
    "ToNumber printInteger (bodyField ?b ''space'') = Inr (Fin 2)"
    by (simp_all add: eval_defs)
  have c: "nameOk (bodyField ?c ''name'')" "phoneOk (bodyField ?c ''phone'')"
    "bodyField ?c ''items'' = JUndefined \<or> bodyField ?c ''items'' = JArr []"
    "bodyField ?c ''lessonIDs'' = JArr ?lids" "?lids \<noteq> []"
    "bodyField ?c ''space'' \<noteq> JUndefined"
    by (simp_all add: eval_defs)
  have c7: "ToNumber printInteger (bodyField ?c ''space'') = Inr (Fin (- 2))"
    by (simp add: eval_defs StringToNumber_integers)
  have p: "positiveFinite (Fin 2) \<and> (\<forall>v\<in>set ?lids. ToString printInteger v \<noteq> Inl TypeError)"
    "\<not> positiveFinite (Fin (- 2))"
    by simp_all
  have s: "map (\<lambda>v. storedRef (stringOf printInteger v)) ?lids = [BOid ''65a1b2c3d4e5f60718293a4b'']"
    by (simp add: eval_defs stringOf_def)
  from batch_space_checked [OF b, of 0] batch_space_checked [OF c c7, of 0] p s
  show ?thesis by (simp add: bodyField_def bodyOrEmpty_def js_or_def)
qed

text \<open>
  Claim C3. A batch payload (valid name and phone, no items, a non-empty \<open>lessonIDs\<close>,
  \<open>space\<close> supplied) is to be rejected with \<open>space must be a positive number\<close> when
  \<open>space\<close> does not convert to a finite positive number, and to give the batch document
  with the converted number otherwise. The code does not do so when \<open>space\<close> is a
  parsed object with an own property \<open>toString\<close>, as in \<open>{toString: 1}\<close>: the value
  converts to no number, the unguarded conversion raises a TypeError (no method gives a
  primitive), no error message is returned, and the route answers 500 instead of 400.
\<close>

theorem buildOrderDoc_batch_space_raises:
  "nameOk (JStr ''Jane Doe'') \<and> phoneOk (JStr ''12345'')
   \<and> ToNumber printInteger (JObj [(''toString'', JNum (Fin 1))]) = Inl TypeError
   \<and> buildOrderDoc printInteger 0
       (JObj [(''name'', JStr ''Jane Doe''), (''phone'', JStr ''12345''),
              (''lessonIDs'', JArr [JStr ''65a1b2c3d4e5f60718293a4b'']),
              (''space'', JObj [(''toString'', JNum (Fin 1))])])
     = Inl TypeError
   \<and> buildOrderDoc printInteger 0
       (JObj [(''name'', JStr ''Jane Doe''), (''phone'', JStr ''12345''),
              (''lessonIDs'', JArr [JStr ''65a1b2c3d4e5f60718293a4b'']),
              (''space'', JObj [(''toString'', JNum (Fin 1))])])
     \<noteq> Inr (Error ''space must be a positive number'')"
  by (simp add: eval_defs)

theorem buildOrderDoc_batch_space_raises_witness:
  "buildOrderDoc printInteger 0
       (JObj [(''name'', JStr ''Jane Doe''), (''phone'', JStr ''12345''),
              (''lessonIDs'', JArr [JStr ''65a1b2c3d4e5f60718293a4b'']),
              (''space'', JObj [(''toString'', JNum (Fin 1))])])
     = Inl TypeError"
  using buildOrderDoc_batch_space_raises by blast

subsection \<open>Items before the batch fields\<close>

lemma normalizeItem_storedItem:
  assumes "itemSpace n2s it = Inr n"
    and "\<forall>v. itemId it = Inr v \<longrightarrow> ToString n2s v \<noteq> Inl TypeError"
  shows "normalizeItem n2s it = Inr (storedItem n2s it)"
proof -
  from assms(1) obtain v where v: "itemId it = Inr v" by (blast dest: itemId_total)
  with assms(2) obtain s where "ToString n2s v = Inr s" by (auto simp: not_raise_iff)
  with v assms(1) show ?thesis
    by (simp add: normalizeItem_eq storedItem_def theId_def theSpace_def stringOf_def)
qed

lemma mapE_normalizeItem:
  "\<forall>it\<in>set its. (\<exists>n. itemSpace n2s it = Inr n)
       \<and> (\<forall>v. itemId it = Inr v \<longrightarrow> ToString n2s v \<noteq> Inl TypeError) \<Longrightarrow>
   mapE (normalizeItem n2s) its = Inr (map (storedItem n2s) its)"
proof (induction its)
  case Nil
  show ?case by simp
next
  case (Cons it its)
  then have "normalizeItem n2s it = Inr (storedItem n2s it)"
    by (auto intro: normalizeItem_storedItem)
  with Cons show ?case by simp
qed


text \<open>
  Claim C4, amended. Let the name and the phone be valid and \<open>items\<close> be a non-empty
  array; \<open>lessonIDs\<close> and \<open>space\<close> may be supplied as well. Then a document that is
  produced is itemized: its fields are \<open>name\<close>, \<open>phone\<close>, \<open>items\<close> and \<open>createdAt\<close>,
  with no \<open>lessonIDs\<close> and no top-level \<open>space\<close>. The batch fields are ignored: the
  result is that of any body with the same name, phone and items. The itemized
  document is produced when the space of every item converts to a finite positive
  number and no item's lesson reference raises when converted to a string, and only if
  the space of every item converts to a finite positive number. Otherwise the payload
  is rejected: when the space of some item converts to a number that is not finite and
  positive, nothing raising up to that item, the result is the error
  \<open>Each item.space must be a positive number\<close>.
\<close>

theorem items_take_precedence:
  assumes "nameOk (bodyField body ''name'')" and "phoneOk (bodyField body ''phone'')"
    and "bodyField body ''items'' = JArr its" and "its \<noteq> []"
  shows "(\<forall>d. buildOrderDoc n2s now body = Inr (Doc d) \<longrightarrow>
            map fst d = [''name'', ''phone'', ''items'', ''createdAt''])
       \<and> (\<forall>body'. bodyField body' ''name'' = bodyField body ''name''
              \<and> bodyField body' ''phone'' = bodyField body ''phone''
              \<and> bodyField body' ''items'' = bodyField body ''items'' \<longrightarrow>
            buildOrderDoc n2s now body' = buildOrderDoc n2s now body)
       \<and> ((\<forall>it\<in>set its. (\<exists>n. itemSpace n2s it = Inr n \<and> positiveFinite n)
              \<and> (\<forall>v. itemId it = Inr v \<longrightarrow> ToString n2s v \<noteq> Inl TypeError)) \<longrightarrow>
            buildOrderDoc n2s now body =
              Inr (Doc [(''name'', BStr (strOf (bodyField body ''name''))),
                        (''phone'', BStr (strOf (bodyField body ''phone''))),
                        (''items'', BArr (map (storedItem n2s) its)),
                        (''createdAt'', BDate now)]))
       \<and> (\<forall>d. buildOrderDoc n2s now body = Inr (Doc d) \<longrightarrow>
            (\<forall>it\<in>set its. \<exists>n. itemSpace n2s it = Inr n \<and> positiveFinite n))
       \<and> (i < length its \<and> (\<forall>it\<in>set (take (Suc i) its). itemSpace n2s it \<noteq> Inl TypeError)
              \<and> itemSpace n2s (its ! i) = Inr m \<and> \<not> positiveFinite m \<longrightarrow>
            buildOrderDoc n2s now body = Inr (Error ''Each item.space must be a positive number''))"
proof (intro conjI allI impI)
  fix d
  assume "buildOrderDoc n2s now body = Inr (Doc d)"
  then show "map fst d = [''name'', ''phone'', ''items'', ''createdAt'']"
    unfolding buildOrderDoc_items [OF assms]
    by (cases "checkItems n2s its"; cases "mapE (normalizeItem n2s) its")
       (auto split: if_splits)
next
  fix body'
  assume "bodyField body' ''name'' = bodyField body ''name''
              \<and> bodyField body' ''phone'' = bodyField body ''phone''
              \<and> bodyField body' ''items'' = bodyField body ''items''"
  then have e: "bodyField body' ''name'' = bodyField body ''name''"
    "bodyField body' ''phone'' = bodyField body ''phone''"
    "bodyField body' ''items'' = bodyField body ''items''"
    by simp_all
  with assms have b': "nameOk (bodyField body' ''name'')" "phoneOk (bodyField body' ''phone'')"
    "bodyField body' ''items'' = JArr its"
    by simp_all
  show "buildOrderDoc n2s now body' = buildOrderDoc n2s now body"
    unfolding buildOrderDoc_items [OF b' assms(4)] buildOrderDoc_items [OF assms] e ..
next
  assume a: "\<forall>it\<in>set its. (\<exists>n. itemSpace n2s it = Inr n \<and> positiveFinite n)
              \<and> (\<forall>v. itemId it = Inr v \<longrightarrow> ToString n2s v \<noteq> Inl TypeError)"
  then have ok: "checkItems n2s its = Inr True"
    by (simp add: checkItems_True_iff)
  from a have "mapE (normalizeItem n2s) its = Inr (map (storedItem n2s) its)"
    by (intro mapE_normalizeItem) auto
  with ok show "buildOrderDoc n2s now body =
              Inr (Doc [(''name'', BStr (strOf (bodyField body ''name''))),
                        (''phone'', BStr (strOf (bodyField body ''phone''))),
                        (''items'', BArr (map (storedItem n2s) its)),
                        (''createdAt'', BDate now)])"
    by (simp add: buildOrderDoc_items [OF assms])
next
  fix d
  assume p: "buildOrderDoc n2s now body = Inr (Doc d)"
  have "checkItems n2s its = Inr True"
  proof (cases "checkItems n2s its")
    case (Inl e)
    with p show ?thesis by (simp add: buildOrderDoc_items [OF assms])
  next
    case (Inr ok)
    with p show ?thesis by (cases ok) (simp_all add: buildOrderDoc_items [OF assms])
  qed
  then show "\<forall>it\<in>set its. \<exists>n. itemSpace n2s it = Inr n \<and> positiveFinite n"
    by (simp add: checkItems_True_iff)
next
  assume "i < length its \<and> (\<forall>it\<in>set (take (Suc i) its). itemSpace n2s it \<noteq> Inl TypeError)
              \<and> itemSpace n2s (its ! i) = Inr m \<and> \<not> positiveFinite m"
  then have "checkItems n2s its = Inr False"
    by (intro checkItems_violation [of i its n2s m]) auto
  then show "buildOrderDoc n2s now body = Inr (Error ''Each item.space must be a positive number'')"
    by (simp add: buildOrderDoc_items [OF assms])
qed

theorem items_take_precedence_witness:
  "buildOrderDoc printInteger 0
     (JObj [(''name'', JStr ''Jane Doe''), (''phone'', JStr ''12345''),
            (''items'', JArr [JObj [(''lessonId'', JStr ''yoga''), (''space'', JNum (Fin 1))]]),
            (''lessonIDs'', JArr [JStr ''65a1b2c3d4e5f60718293a4b'']), (''space'', JNum (Fin 2))])
   = Inr (Doc [(''name'', BStr ''Jane Doe''), (''phone'', BStr ''12345''),
               (''items'', BArr [BDoc [(''lessonId'', BStr ''yoga''), (''space'', BNum (Fin 1))]]),
               (''createdAt'', BDate 0)])
   \<and> buildOrderDoc printInteger 0
     (JObj [(''name'', JStr ''Jane Doe''), (''phone'', JStr ''12345''),
            (''items'', JArr [JObj [(''lessonId'', JStr ''yoga''), (''space'', JNum (Fin (- 1)))]]),
            (''lessonIDs'', JArr [JStr ''65a1b2c3d4e5f60718293a4b'']), (''space'', JNum (Fin 2))])
   = Inr (Error ''Each item.space must be a positive number'')"
proof -
  let ?its = "[JObj [(''lessonId'', JStr ''yoga''), (''space'', JNum (Fin 1))]]"
  let ?b = "JObj [(''name'', JStr ''Jane Doe''), (''phone'', JStr ''12345''), (''items'', JArr ?its),
            (''lessonIDs'', JArr [JStr ''65a1b2c3d4e5f60718293a4b'']), (''space'', JNum (Fin 2))]"
  let ?jts = "[JObj [(''lessonId'', JStr ''yoga''), (''space'', JNum (Fin (- 1)))]]"
  let ?c = "JObj [(''name'', JStr ''Jane Doe''), (''phone'', JStr ''12345''), (''items'', JArr ?jts),
            (''lessonIDs'', JArr [JStr ''65a1b2c3d4e5f60718293a4b'']), (''space'', JNum (Fin 2))]"
  have b: "nameOk (bodyField ?b ''name'')" "phoneOk (bodyField ?b ''phone'')"
    "bodyField ?b ''items'' = JArr ?its" "?its \<noteq> []"
    by (simp_all add: eval_defs)
  have c: "nameOk (bodyField ?c ''name'')" "phoneOk (bodyField ?c ''phone'')"
    "bodyField ?c ''items'' = JArr ?jts" "?jts \<noteq> []"
    by (simp_all add: eval_defs)
  have p: "\<forall>it\<in>set ?its. (\<exists>n. itemSpace printInteger it = Inr n \<and> positiveFinite n)
              \<and> (\<forall>v. itemId it = Inr v \<longrightarrow> ToString printInteger v \<noteq> Inl TypeError)"
    by (simp add: eval_defs)
  have d: "map (storedItem printInteger) ?its
             = [BDoc [(''lessonId'', BStr ''yoga''), (''space'', BNum (Fin 1))]]"
    by (simp add: eval_defs storedItem_def stringOf_def theId_def theSpace_def)
  have q: "0 < length ?jts \<and> (\<forall>it\<in>set (take (Suc 0) ?jts). itemSpace printInteger it \<noteq> Inl TypeError)
              \<and> itemSpace printInteger (?jts ! 0) = Inr (Fin (- 1)) \<and> \<not> positiveFinite (Fin (- 1))"
    by (simp add: itemSpace_def)
  from items_take_precedence [OF b, of printInteger 0] p d
  have 1: "buildOrderDoc printInteger 0 ?b
   = Inr (Doc [(''name'', BStr ''Jane Doe''), (''phone'', BStr ''12345''),
               (''items'', BArr [BDoc [(''lessonId'', BStr ''yoga''), (''space'', BNum (Fin 1))]]),
               (''createdAt'', BDate 0)])"
    by (simp add: bodyField_def bodyOrEmpty_def js_or_def)
  from items_take_precedence [OF c, of printInteger 0 0 "Fin (- 1)"] q
  have 2: "buildOrderDoc printInteger 0 ?c = Inr (Error ''Each item.space must be a positive number'')"
    by blast
  from 1 2 show ?thesis by simp
qed

text \<open>
  The claim as it is written fails when an item does not pass the check of its space:
  both shapes are supplied, and no document is produced at all.
\<close>

theorem items_take_precedence_counterexample:
  "nameOk (JStr ''Jane Doe'') \<and> phoneOk (JStr ''12345'')
   \<and> buildOrderDoc printInteger 0
     (JObj [(''name'', JStr ''Jane Doe''), (''phone'', JStr ''12345''),
            (''items'', JArr [JObj [(''lessonId'', JStr ''yoga''), (''space'', JNum (Fin 0))]]),
            (''lessonIDs'', JArr [JStr ''65a1b2c3d4e5f60718293a4b'']), (''space'', JNum (Fin 2))])
   = Inr (Error ''Each item.space must be a positive number'')"
  by (simp add: eval_defs)

subsection \<open>Lesson references\<close>

lemma toObjectIdSafe_JStr:
  "toObjectIdSafe n2s (JStr s) =
     (if length s = 24 \<and> (\<forall>c\<in>set s. isHexDigit c) then Some (toLowerCase s) else None)"
  by (simp add: toObjectIdSafe_def ObjectId_valid_def list_all_iff)

lemma itemId_falsy:
  "\<not> truthy (propOf it ''lessonId'') \<Longrightarrow> \<not> truthy (propOf it ''lessonID'') \<Longrightarrow>
   theId it = propOf it ''id''"
  by (cases it) (simp_all add: theId_def itemId_def propOf_def)

lemma theId_no_raise:
  "itemId it = Inr v \<Longrightarrow> ToString n2s (theId it) \<noteq> Inl TypeError \<Longrightarrow>
   ToString n2s v \<noteq> Inl TypeError"
  by (simp add: theId_def)

text \<open>
  Claim C7. \<^verbatim>\<open>toObjectIdSafe\<close> returns an identifier or nothing, never an exception:
  a string is an identifier exactly when it has 24 hexadecimal digits, every other
  string gives nothing, and a value whose conversion to a string raises gives nothing
  as well. For an identifier of an order payload that is a string, what is stored is
  the identifier if the string parses and the string itself if it does not; so a
  payload whose lesson references are strings, and which passes the checks of name,
  phone and space, is turned into its document whether the references parse or not.
\<close>

theorem toObjectIdSafe_falls_back:
  "toObjectIdSafe n2s (JStr s) =
     (if length s = 24 \<and> (\<forall>c\<in>set s. isHexDigit c) then Some (toLowerCase s) else None)
   \<and> (ToString n2s v = Inl TypeError \<longrightarrow> toObjectIdSafe n2s v = None)
   \<and> idOrString n2s (JStr s) =
       Inr (if length s = 24 \<and> (\<forall>c\<in>set s. isHexDigit c) then BOid (toLowerCase s) else BStr s)
   \<and> (nameOk (bodyField body ''name'') \<and> phoneOk (bodyField body ''phone'')
        \<and> bodyField body ''items'' = JArr its \<and> its \<noteq> []
        \<and> (\<forall>it\<in>set its. (\<exists>n. itemSpace n2s it = Inr n \<and> positiveFinite n)
                          \<and> (\<exists>t. itemId it = Inr (JStr t))) \<longrightarrow>
       buildOrderDoc n2s now body =
         Inr (Doc [(''name'', BStr (strOf (bodyField body ''name''))),
                   (''phone'', BStr (strOf (bodyField body ''phone''))),
                   (''items'', BArr (map (\<lambda>it. BDoc [(''lessonId'', storedRef (strOf (theId it))),
                                                       (''space'', BNum (theSpace n2s it))]) its)),
                   (''createdAt'', BDate now)]))
   \<and> (nameOk (bodyField body ''name'') \<and> phoneOk (bodyField body ''phone'')
        \<and> (bodyField body ''items'' = JUndefined \<or> bodyField body ''items'' = JArr [])
        \<and> bodyField body ''lessonIDs'' = JArr lids \<and> lids \<noteq> []
        \<and> bodyField body ''space'' \<noteq> JUndefined
        \<and> ToNumber n2s (bodyField body ''space'') = Inr n \<and> positiveFinite n
        \<and> (\<forall>x\<in>set lids. \<exists>t. x = JStr t) \<longrightarrow>
       buildOrderDoc n2s now body =
         Inr (Doc [(''name'', BStr (strOf (bodyField body ''name''))),
                   (''phone'', BStr (strOf (bodyField body ''phone''))),
                   (''lessonIDs'', BArr (map (\<lambda>x. storedRef (strOf x)) lids)),
                   (''space'', BNum n), (''createdAt'', BDate now)]))"
proof (intro conjI impI)
  show "toObjectIdSafe n2s (JStr s) =
     (if length s = 24 \<and> (\<forall>c\<in>set s. isHexDigit c) then Some (toLowerCase s) else None)"
    by (rule toObjectIdSafe_JStr)
  show "idOrString n2s (JStr s) =
       Inr (if length s = 24 \<and> (\<forall>c\<in>set s. isHexDigit c) then BOid (toLowerCase s) else BStr s)"
    by (simp add: idOrString_eq storedRef_def ObjectId_valid_def list_all_iff)
next
  assume "ToString n2s v = Inl TypeError"
  then show "toObjectIdSafe n2s v = None"
    by (simp add: toObjectIdSafe_def)
next
  assume a: "nameOk (bodyField body ''name'') \<and> phoneOk (bodyField body ''phone'')
        \<and> bodyField body ''items'' = JArr its \<and> its \<noteq> []
        \<and> (\<forall>it\<in>set its. (\<exists>n. itemSpace n2s it = Inr n \<and> positiveFinite n)
                          \<and> (\<exists>t. itemId it = Inr (JStr t)))"
  then have ok: "checkItems n2s its = Inr True"
    by (simp add: checkItems_True_iff)
  have "\<forall>it\<in>set its. (\<exists>n. itemSpace n2s it = Inr n)
       \<and> (\<forall>v. itemId it = Inr v \<longrightarrow> ToString n2s v \<noteq> Inl TypeError)"
  proof
    fix it assume "it \<in> set its"
    with a obtain m t where "itemSpace n2s it = Inr m" "itemId it = Inr (JStr t)" by blast
    then show "(\<exists>n. itemSpace n2s it = Inr n)
       \<and> (\<forall>v. itemId it = Inr v \<longrightarrow> ToString n2s v \<noteq> Inl TypeError)"
      by auto
  qed
  then have "mapE (normalizeItem n2s) its = Inr (map (storedItem n2s) its)"
    by (rule mapE_normalizeItem)
  moreover have "map (storedItem n2s) its =
      map (\<lambda>it. BDoc [(''lessonId'', storedRef (strOf (theId it))),
                       (''space'', BNum (theSpace n2s it))]) its"
  proof (rule map_cong [OF refl])
    fix it assume "it \<in> set its"
    with a obtain t where "itemId it = Inr (JStr t)" by blast
    then show "storedItem n2s it = BDoc [(''lessonId'', storedRef (strOf (theId it))),
                       (''space'', BNum (theSpace n2s it))]"
      by (simp add: storedItem_def theId_def stringOf_def)
  qed
  ultimately show "buildOrderDoc n2s now body =
         Inr (Doc [(''name'', BStr (strOf (bodyField body ''name''))),
                   (''phone'', BStr (strOf (bodyField body ''phone''))),
                   (''items'', BArr (map (\<lambda>it. BDoc [(''lessonId'', storedRef (strOf (theId it))),
                                                       (''space'', BNum (theSpace n2s it))]) its)),
                   (''createdAt'', BDate now)])"
    using a ok by (simp add: buildOrderDoc_items)
next
  assume a: "nameOk (bodyField body ''name'') \<and> phoneOk (bodyField body ''phone'')
        \<and> (bodyField body ''items'' = JUndefined \<or> bodyField body ''items'' = JArr [])
        \<and> bodyField body ''lessonIDs'' = JArr lids \<and> lids \<noteq> []
        \<and> bodyField body ''space'' \<noteq> JUndefined
        \<and> ToNumber n2s (bodyField body ''space'') = Inr n \<and> positiveFinite n
        \<and> (\<forall>x\<in>set lids. \<exists>t. x = JStr t)"
  then have ni: "nonEmptyArray (bodyField body ''items'') = None" by auto
  from a have "mapE (idOrString n2s) lids = Inr (map (\<lambda>x. storedRef (stringOf n2s x)) lids)"
    by (intro mapE_idOrString) auto
  moreover have "map (\<lambda>x. storedRef (stringOf n2s x)) lids = map (\<lambda>x. storedRef (strOf x)) lids"
  proof (rule map_cong [OF refl])
    fix x assume "x \<in> set lids"
    with a obtain t where "x = JStr t" by blast
    then show "storedRef (stringOf n2s x) = storedRef (strOf x)"
      by (simp add: stringOf_def)
  qed
  ultimately show "buildOrderDoc n2s now body =
         Inr (Doc [(''name'', BStr (strOf (bodyField body ''name''))),
                   (''phone'', BStr (strOf (bodyField body ''phone''))),
                   (''lessonIDs'', BArr (map (\<lambda>x. storedRef (strOf x)) lids)),
                   (''space'', BNum n), (''createdAt'', BDate now)])"
    using a ni by (simp add: buildOrderDoc_batch)
qed

theorem toObjectIdSafe_falls_back_witness:
  "toObjectIdSafe printInteger (JStr ''not-an-id'') = None
   \<and> toObjectIdSafe printInteger (JObj [(''toString'', JNum (Fin 1))]) = None
   \<and> buildOrderDoc printInteger 0
       (JObj [(''name'', JStr ''Jane Doe''), (''phone'', JStr ''12345''),
              (''items'', JArr [JObj [(''lessonId'', JStr ''not-an-id''), (''space'', JNum (Fin 1))]])])
     = Inr (Doc [(''name'', BStr ''Jane Doe''), (''phone'', BStr ''12345''),
                 (''items'', BArr [BDoc [(''lessonId'', BStr ''not-an-id''), (''space'', BNum (Fin 1))]]),
                 (''createdAt'', BDate 0)])
   \<and> buildOrderDoc printInteger 0
       (JObj [(''name'', JStr ''Jane Doe''), (''phone'', JStr ''12345''),
              (''lessonIDs'', JArr [JStr ''65a1b2c3d4e5f60718293a4b'', JStr ''xyz'']),
              (''space'', JNum (Fin 2))])
     = Inr (Doc [(''name'', BStr ''Jane Doe''), (''phone'', BStr ''12345''),
                 (''lessonIDs'', BArr [BOid ''65a1b2c3d4e5f60718293a4b'', BStr ''xyz'']),
                 (''space'', BNum (Fin 2)), (''createdAt'', BDate 0)])"
proof -
  let ?its = "[JObj [(''lessonId'', JStr ''not-an-id''), (''space'', JNum (Fin 1))]]"
  let ?b = "JObj [(''name'', JStr ''Jane Doe''), (''phone'', JStr ''12345''), (''items'', JArr ?its)]"
  let ?lids = "[JStr ''65a1b2c3d4e5f60718293a4b'', JStr ''xyz'']"
  let ?c = "JObj [(''name'', JStr ''Jane Doe''), (''phone'', JStr ''12345''),
                  (''lessonIDs'', JArr ?lids), (''space'', JNum (Fin 2))]"
  let ?o = "JObj [(''toString'', JNum (Fin 1))]"
  have o: "ToString printInteger ?o = Inl TypeError" by simp
  have b: "nameOk (bodyField ?b ''name'') \<and> phoneOk (bodyField ?b ''phone'')
        \<and> bodyField ?b ''items'' = JArr ?its \<and> ?its \<noteq> []
        \<and> (\<forall>it\<in>set ?its. (\<exists>n. itemSpace printInteger it = Inr n \<and> positiveFinite n)
                          \<and> (\<exists>t. itemId it = Inr (JStr t)))"
    by (simp add: eval_defs)
  have c: "nameOk (bodyField ?c ''name'') \<and> phoneOk (bodyField ?c ''phone'')
        \<and> (bodyField ?c ''items'' = JUndefined \<or> bodyField ?c ''items'' = JArr [])
        \<and> bodyField ?c ''lessonIDs'' = JArr ?lids \<and> ?lids \<noteq> []
        \<and> bodyField ?c ''space'' \<noteq> JUndefined
        \<and> ToNumber printInteger (bodyField ?c ''space'') = Inr (Fin 2) \<and> positiveFinite (Fin 2)
        \<and> (\<forall>x\<in>set ?lids. \<exists>t. x = JStr t)"
    by (simp add: eval_defs)
  have d: "map (\<lambda>it. BDoc [(''lessonId'', storedRef (strOf (theId it))),
                            (''space'', BNum (theSpace printInteger it))]) ?its
           = [BDoc [(''lessonId'', BStr ''not-an-id''), (''space'', BNum (Fin 1))]]"
    "map (\<lambda>x. storedRef (strOf x)) ?lids = [BOid ''65a1b2c3d4e5f60718293a4b'', BStr ''xyz'']"
    by (simp_all add: eval_defs theId_def theSpace_def)
  note t1 = toObjectIdSafe_falls_back [of printInteger "''not-an-id''" ?o ?b ?its 0 ?lids "Fin 2"]
  note t2 = toObjectIdSafe_falls_back [of printInteger "''not-an-id''" ?o ?c ?its 0 ?lids "Fin 2"]
  have e: "\<not> (length ''not-an-id'' = 24 \<and> (\<forall>c\<in>set ''not-an-id''. isHexDigit c))" by simp
  from t1 t2 o b c d e show ?thesis
    by (simp add: bodyField_def bodyOrEmpty_def js_or_def)
qed

text \<open>
  Claim C10, amended. Let the name and the phone be valid, \<open>items\<close> be a non-empty array
  whose elements all have a space that converts to a finite positive number, and let no
  lesson reference raise when converted to a string. Then the itemized document is
  produced; each stored \<open>lessonId\<close> is an identifier or a string; an item whose
  \<open>lessonId\<close> and \<open>lessonID\<close> are absent or falsy stores the string of its \<open>id\<close>
  property (or the identifier that string parses to), and so the string \<open>undefined\<close>
  when \<open>id\<close> is absent too.
\<close>

theorem item_reference_stored:
  assumes "nameOk (bodyField body ''name'')" and "phoneOk (bodyField body ''phone'')"
    and "bodyField body ''items'' = JArr its" and "its \<noteq> []"
    and "\<forall>it\<in>set its. \<exists>n. itemSpace n2s it = Inr n \<and> positiveFinite n"
    and "\<forall>it\<in>set its. ToString n2s (theId it) \<noteq> Inl TypeError"
  shows "buildOrderDoc n2s now body =
           Inr (Doc [(''name'', BStr (strOf (bodyField body ''name''))),
                     (''phone'', BStr (strOf (bodyField body ''phone''))),
                     (''items'', BArr (map (storedItem n2s) its)),
                     (''createdAt'', BDate now)])
       \<and> (\<forall>it\<in>set its. \<exists>ref. isRef ref \<and>
             storedItem n2s it = BDoc [(''lessonId'', ref), (''space'', BNum (theSpace n2s it))])
       \<and> (\<forall>it\<in>set its. \<not> truthy (propOf it ''lessonId'') \<and> \<not> truthy (propOf it ''lessonID'') \<longrightarrow>
             storedItem n2s it =
               BDoc [(''lessonId'', storedRef (stringOf n2s (propOf it ''id''))),
                     (''space'', BNum (theSpace n2s it))])
       \<and> (\<forall>it\<in>set its. \<not> truthy (propOf it ''lessonId'') \<and> \<not> truthy (propOf it ''lessonID'')
               \<and> propOf it ''id'' = JUndefined \<longrightarrow>
             storedItem n2s it =
               BDoc [(''lessonId'', BStr ''undefined''), (''space'', BNum (theSpace n2s it))])"
proof (intro conjI ballI impI)
  have ok: "checkItems n2s its = Inr True"
    using assms(5) by (simp add: checkItems_True_iff)
  have "\<forall>it\<in>set its. (\<exists>n. itemSpace n2s it = Inr n)
       \<and> (\<forall>v. itemId it = Inr v \<longrightarrow> ToString n2s v \<noteq> Inl TypeError)"
  proof
    fix it assume i: "it \<in> set its"
    with assms(5) obtain m where "itemSpace n2s it = Inr m" by blast
    moreover from i assms(6) have "ToString n2s (theId it) \<noteq> Inl TypeError" by blast
    ultimately show "(\<exists>n. itemSpace n2s it = Inr n)
       \<and> (\<forall>v. itemId it = Inr v \<longrightarrow> ToString n2s v \<noteq> Inl TypeError)"
      by (auto dest: theId_no_raise)
  qed
  then have "mapE (normalizeItem n2s) its = Inr (map (storedItem n2s) its)"
    by (rule mapE_normalizeItem)
  with ok show "buildOrderDoc n2s now body =
           Inr (Doc [(''name'', BStr (strOf (bodyField body ''name''))),
                     (''phone'', BStr (strOf (bodyField body ''phone''))),
                     (''items'', BArr (map (storedItem n2s) its)),
                     (''createdAt'', BDate now)])"
    by (simp add: buildOrderDoc_items [OF assms(1-4)])
next
  fix it assume "it \<in> set its"
  show "\<exists>ref. isRef ref \<and>
             storedItem n2s it = BDoc [(''lessonId'', ref), (''space'', BNum (theSpace n2s it))]"
    by (simp add: storedItem_def storedRef_def)
next
  fix it
  assume "it \<in> set its" and "\<not> truthy (propOf it ''lessonId'') \<and> \<not> truthy (propOf it ''lessonID'')"
  then show "storedItem n2s it =
               BDoc [(''lessonId'', storedRef (stringOf n2s (propOf it ''id''))),
                     (''space'', BNum (theSpace n2s it))]"
    by (simp add: storedItem_def itemId_falsy)
next
  fix it
  assume "it \<in> set its" and "\<not> truthy (propOf it ''lessonId'') \<and> \<not> truthy (propOf it ''lessonID'')
               \<and> propOf it ''id'' = JUndefined"
  then show "storedItem n2s it =
               BDoc [(''lessonId'', BStr ''undefined''), (''space'', BNum (theSpace n2s it))]"
    by (simp add: storedItem_def itemId_falsy stringOf_def storedRef_def ObjectId_valid_def)
qed

theorem item_reference_stored_witness:
  "buildOrderDoc printInteger 0
     (JObj [(''name'', JStr ''Jane Doe''), (''phone'', JStr ''12345''),
            (''items'', JArr [JObj [(''space'', JNum (Fin 1))],
                              JObj [(''lessonID'', JStr ''65A1B2C3D4E5F60718293A4B''),
                                    (''space'', JNum (Fin 3))]])])
   = Inr (Doc [(''name'', BStr ''Jane Doe''), (''phone'', BStr ''12345''),
               (''items'', BArr [BDoc [(''lessonId'', BStr ''undefined''), (''space'', BNum (Fin 1))],
                                 BDoc [(''lessonId'', BOid ''65a1b2c3d4e5f60718293a4b''),
                                       (''space'', BNum (Fin 3))]]),
               (''createdAt'', BDate 0)])"
proof -
  let ?i1 = "JObj [(''space'', JNum (Fin 1))]"
  let ?i2 = "JObj [(''lessonID'', JStr ''65A1B2C3D4E5F60718293A4B''), (''space'', JNum (Fin 3))]"
  let ?b = "JObj [(''name'', JStr ''Jane Doe''), (''phone'', JStr ''12345''),
                  (''items'', JArr [?i1, ?i2])]"
  have b: "nameOk (bodyField ?b ''name'')" "phoneOk (bodyField ?b ''phone'')"
    "bodyField ?b ''items'' = JArr [?i1, ?i2]" "[?i1, ?i2] \<noteq> []"
    "\<forall>it\<in>set [?i1, ?i2]. \<exists>n. itemSpace printInteger it = Inr n \<and> positiveFinite n"
    "\<forall>it\<in>set [?i1, ?i2]. ToString printInteger (theId it) \<noteq> Inl TypeError"
    by (simp_all add: eval_defs theId_def)
  have d: "map (storedItem printInteger) [?i1, ?i2] =
      [BDoc [(''lessonId'', BStr ''undefined''), (''space'', BNum (Fin 1))],
       BDoc [(''lessonId'', BOid ''65a1b2c3d4e5f60718293a4b''), (''space'', BNum (Fin 3))]]"
    by (simp add: eval_defs storedItem_def stringOf_def theId_def theSpace_def)
  from item_reference_stored [OF b, of 0] d show ?thesis
    by (simp add: bodyField_def bodyOrEmpty_def js_or_def)
qed

text \<open>
  The claim as it is written fails on an item whose only lesson field is a falsy \<open>id\<close>
  that is not \<open>undefined\<close>: with \<open>id: null\<close> the string stored is \<open>null\<close>.
\<close>

theorem item_reference_falsy_counterexample:
  "\<not> truthy JNull
   \<and> buildOrderDoc printInteger 0
     (JObj [(''name'', JStr ''Jane Doe''), (''phone'', JStr ''12345''),
            (''items'', JArr [JObj [(''id'', JNull), (''space'', JNum (Fin 1))]])])
   = Inr (Doc [(''name'', BStr ''Jane Doe''), (''phone'', BStr ''12345''),
               (''items'', BArr [BDoc [(''lessonId'', BStr ''null''), (''space'', BNum (Fin 1))]]),
               (''createdAt'', BDate 0)])
   \<and> BStr ''null'' \<noteq> BStr ''undefined''"
  by (simp add: eval_defs)

section \<open>The two server variants\<close>

lemma buildOrderDoc_basic_items:
  assumes "nameOk (bodyField body ''name'')" "phoneOk (bodyField body ''phone'')"
    and "bodyField body ''items'' = JArr its" "its \<noteq> []"
  shows "buildOrderDoc_basic n2s now body =
     bindE (mapE (normalizeItem n2s) its) (\<lambda>normalized.
         Inr (Doc [(''name'', BStr (strOf (bodyField body ''name''))),
                   (''phone'', BStr (strOf (bodyField body ''phone''))),
                   (''items'', BArr normalized), (''createdAt'', BDate now)]))"
  using assms by (simp add: buildOrderDoc_basic_def getProp_bodyOrEmpty nonEmptyArray_JArr)

lemma nonEmptyArray_isArray: "nonEmptyArray v = Some xs \<Longrightarrow> isArray v = Some xs"
  by (cases v rule: nonEmptyArray.cases) simp_all

lemma nonEmptyArray_Some: "nonEmptyArray v = Some xs \<Longrightarrow> v = JArr xs \<and> xs \<noteq> []"
  by (cases v rule: nonEmptyArray.cases) auto

text \<open>
  Claim C9, amended. The two variants of \<^verbatim>\<open>buildOrderDoc\<close> agree where the first one
  accepts: a document produced by the first variant is produced, the same, by the
  second (same clock); and an error message returned by the second variant is returned
  by the first. They are not equal: the second variant has none of the checks of the
  space, and of a non-empty \<open>lessonIDs\<close>, that the first one makes.
\<close>

theorem variants_agree_on_accepted:
  "(buildOrderDoc n2s now body = Inr (Doc d) \<longrightarrow> buildOrderDoc_basic n2s now body = Inr (Doc d))
   \<and> (buildOrderDoc_basic n2s now body = Inr (Error e) \<longrightarrow> buildOrderDoc n2s now body = Inr (Error e))"
proof (cases "nameOk (bodyField body ''name'') \<and> phoneOk (bodyField body ''phone'')")
  case False
  then show ?thesis
    by (auto simp: buildOrderDoc_def buildOrderDoc_basic_def getProp_bodyOrEmpty)
next
  case valid: True
  show ?thesis
  proof (cases "nonEmptyArray (bodyField body ''items'')")
    case (Some its)
    then have i: "bodyField body ''items'' = JArr its" "its \<noteq> []"
      by (auto dest: nonEmptyArray_Some)
    note e1 = buildOrderDoc_items [OF conjunct1 [OF valid] conjunct2 [OF valid] i, of n2s now]
    note e2 = buildOrderDoc_basic_items [OF conjunct1 [OF valid] conjunct2 [OF valid] i, of n2s now]
    show ?thesis
      unfolding e1 e2
      by (cases "checkItems n2s its"; cases "mapE (normalizeItem n2s) its")
         (auto split: if_splits)
  next
    case None
    show ?thesis
    proof (cases "nonEmptyArray (bodyField body ''lessonIDs'')")
      case noLids: None
      then show ?thesis
        using valid None
        by (cases "isArray (bodyField body ''lessonIDs'')";
            cases "mapE (idOrString n2s) (the (isArray (bodyField body ''lessonIDs'')))";
            cases "ToNumber n2s (bodyField body ''space'')")
           (auto simp: buildOrderDoc_def buildOrderDoc_basic_def getProp_bodyOrEmpty)
    next
      case (Some lids)
      then have "isArray (bodyField body ''lessonIDs'') = Some lids"
        by (rule nonEmptyArray_isArray)
      then show ?thesis
        using valid None Some
        by (cases "mapE (idOrString n2s) lids"; cases "ToNumber n2s (bodyField body ''space'')")
           (auto simp: buildOrderDoc_def buildOrderDoc_basic_def getProp_bodyOrEmpty
                 split: if_splits)
    qed
  qed
qed

theorem variants_agree_on_accepted_witness:
  "buildOrderDoc_basic printInteger 0
     (JObj [(''name'', JStr ''Jane Doe''), (''phone'', JStr ''12345''),
            (''lessonIDs'', JArr [JStr ''65a1b2c3d4e5f60718293a4b'']), (''space'', JNum (Fin 2))])
   = Inr (Doc [(''name'', BStr ''Jane Doe''), (''phone'', BStr ''12345''),
               (''lessonIDs'', BArr [BOid ''65a1b2c3d4e5f60718293a4b'']),
               (''space'', BNum (Fin 2)), (''createdAt'', BDate 0)])
   \<and> buildOrderDoc printInteger 0 (JObj [(''name'', JStr ''Jane Doe''), (''phone'', JStr ''12345'')])
   = Inr (Error ''Provide items[] or lessonIDs[] with space'')"
proof -
  let ?b = "JObj [(''name'', JStr ''Jane Doe''), (''phone'', JStr ''12345''),
            (''lessonIDs'', JArr [JStr ''65a1b2c3d4e5f60718293a4b'']), (''space'', JNum (Fin 2))]"
  let ?d = "[(''name'', BStr ''Jane Doe''), (''phone'', BStr ''12345''),
               (''lessonIDs'', BArr [BOid ''65a1b2c3d4e5f60718293a4b'']),
               (''space'', BNum (Fin 2)), (''createdAt'', BDate 0)]"
  let ?c = "JObj [(''name'', JStr ''Jane Doe''), (''phone'', JStr ''12345'')]"
  have 1: "buildOrderDoc printInteger 0 ?b = Inr (Doc ?d)"
    by (simp add: eval_defs)
  have 2: "buildOrderDoc_basic printInteger 0 ?c = Inr (Error ''Provide items[] or lessonIDs[] with space'')"
    by (simp add: eval_defs)
  from variants_agree_on_accepted [of printInteger 0 ?b ?d]
       variants_agree_on_accepted [of printInteger 0 ?c _ "''Provide items[] or lessonIDs[] with space''"]
       1 2
  show ?thesis by blast
qed

text \<open>
  The claim as it is written fails on an item with space 0: the first variant rejects
  the payload, the second stores the item.
\<close>

theorem variants_differ_counterexample:
  "buildOrderDoc printInteger 0
     (JObj [(''name'', JStr ''Jane Doe''), (''phone'', JStr ''12345''),
            (''items'', JArr [JObj [(''lessonId'', JStr ''yoga''), (''space'', JNum (Fin 0))]])])
   = Inr (Error ''Each item.space must be a positive number'')
   \<and> buildOrderDoc_basic printInteger 0
     (JObj [(''name'', JStr ''Jane Doe''), (''phone'', JStr ''12345''),
            (''items'', JArr [JObj [(''lessonId'', JStr ''yoga''), (''space'', JNum (Fin 0))]])])
   = Inr (Doc [(''name'', BStr ''Jane Doe''), (''phone'', BStr ''12345''),
               (''items'', BArr [BDoc [(''lessonId'', BStr ''yoga''), (''space'', BNum (Fin 0))]]),
               (''createdAt'', BDate 0)])"
  by (simp add: eval_defs)

section \<open>The Query Builder: listing\<close>

lemma listing_lim_eq:
  "ToNumber n2s limit = Inr n \<Longrightarrow>
   listing_lim n2s limit =
     Inr (case n of
            NaN \<Rightarrow> Fin 50 | PosInf \<Rightarrow> Fin 100 | NegInf \<Rightarrow> Fin 1
          | Fin r \<Rightarrow> if r = 0 then Fin 50 else if r < 1 then Fin 1
                      else if 100 < r then Fin 100 else Fin r)"
  by (cases n) (auto simp: listing_lim_def num_or_def)

lemma listing_sk_eq:
  "ToNumber n2s skip = Inr n \<Longrightarrow>
   listing_sk n2s skip =
     Inr (case n of
            NaN \<Rightarrow> Fin 0 | PosInf \<Rightarrow> PosInf | NegInf \<Rightarrow> Fin 0
          | Fin r \<Rightarrow> if r < 0 then Fin 0 else Fin r)"
  by (cases n) (auto simp: listing_sk_def num_or_def)

text \<open>
  Claim C2, amended. The effective limit is the number the input converts to, clamped
  into the range from 1 to 100, except that 50 is taken when the input is absent, not
  numeric, or converts to 0; it always lies between 1 and 100. So \<open>limit=500\<close> gives
  100 and \<open>limit=0\<close> gives 50. The offset is the number of \<open>skip\<close> with 0 for a
  negative number, so \<open>skip=-5\<close> gives 0. A sort value outside the allowlist gives the
  key \<open>_id\<close>, and the direction is descending exactly when the lower-cased \<open>order\<close> is
  \<open>desc\<close>, as for \<open>DESC\<close>.
\<close>

theorem listing_parameters:
  "(ToNumber n2s limit = Inr n \<longrightarrow>
      listing_lim n2s limit =
        Inr (case n of
               NaN \<Rightarrow> Fin 50 | PosInf \<Rightarrow> Fin 100 | NegInf \<Rightarrow> Fin 1
             | Fin r \<Rightarrow> if r = 0 then Fin 50 else if r < 1 then Fin 1
                         else if 100 < r then Fin 100 else Fin r))
   \<and> (listing_lim n2s limit = Inr l \<longrightarrow> (\<exists>r. l = Fin r \<and> 1 \<le> r \<and> r \<le> 100))
   \<and> listing_lim n2s JUndefined = Inr (Fin 50)
   \<and> listing_lim n2s (JStr ''abc'') = Inr (Fin 50)
   \<and> listing_lim n2s (JStr ''500'') = Inr (Fin 100)
   \<and> listing_lim n2s (JStr ''0'') = Inr (Fin 50)
   \<and> (ToNumber n2s skip = Inr m \<longrightarrow>
        listing_sk n2s skip =
          Inr (case m of
                 NaN \<Rightarrow> Fin 0 | PosInf \<Rightarrow> PosInf | NegInf \<Rightarrow> Fin 0
               | Fin r \<Rightarrow> if r < 0 then Fin 0 else Fin r))
   \<and> listing_sk n2s (JStr ''-5'') = Inr (Fin 0)
   \<and> (ToString n2s sortv = Inr k \<longrightarrow>
        listing_sortKey n2s sortv = Inr (if k \<in> set sortable then k else ''_id''))
   \<and> listing_sortKey n2s (JStr ''unknown_field'') = Inr ''_id''
   \<and> listing_sortKey n2s JUndefined = Inr ''_id''
   \<and> (ToString n2s orderv = Inr s \<longrightarrow>
        listing_sortDir n2s orderv = Inr (if toLowerCase s = ''desc'' then - 1 else 1))
   \<and> listing_sortDir n2s (JStr ''DESC'') = Inr (- 1)
   \<and> listing_sortDir n2s (JStr ''DeSc'') = Inr (- 1)"
proof (intro conjI impI)
  assume "ToNumber n2s limit = Inr n"
  then show "listing_lim n2s limit =
        Inr (case n of
               NaN \<Rightarrow> Fin 50 | PosInf \<Rightarrow> Fin 100 | NegInf \<Rightarrow> Fin 1
             | Fin r \<Rightarrow> if r = 0 then Fin 50 else if r < 1 then Fin 1
                         else if 100 < r then Fin 100 else Fin r)"
    by (rule listing_lim_eq)
next
  assume a: "listing_lim n2s limit = Inr l"
  then obtain x where x: "ToNumber n2s limit = Inr x"
    by (cases "ToNumber n2s limit") (simp_all add: listing_lim_def)
  from listing_lim_eq [OF x] a show "\<exists>r. l = Fin r \<and> 1 \<le> r \<and> r \<le> 100"
    by (cases x) (auto split: if_splits)
next
  show "listing_lim n2s JUndefined = Inr (Fin 50)"
    by (simp add: listing_lim_def num_or_def)
  have "StringToNumber ''abc'' = NaN" by (rule StringToNumber_not_numeric)
  then show "listing_lim n2s (JStr ''abc'') = Inr (Fin 50)"
    by (simp add: listing_lim_def num_or_def)
  have "StringToNumber ''500'' = Fin 500" by (simp add: StringToNumber_integers)
  then show "listing_lim n2s (JStr ''500'') = Inr (Fin 100)"
    by (simp add: listing_lim_def num_or_def)
  have "StringToNumber ''0'' = Fin 0" by (simp add: StringToNumber_integers)
  then show "listing_lim n2s (JStr ''0'') = Inr (Fin 50)"
    by (simp add: listing_lim_def num_or_def)
  have "StringToNumber ''-5'' = Fin (- 5)" by (simp add: StringToNumber_integers)
  then show "listing_sk n2s (JStr ''-5'') = Inr (Fin 0)"
    by (simp add: listing_sk_def num_or_def)
  show "listing_sortKey n2s (JStr ''unknown_field'') = Inr ''_id''"
    by (simp add: listing_sortKey_def sortable_def)
  show "listing_sortKey n2s JUndefined = Inr ''_id''"
    by (simp add: listing_sortKey_def sortable_def)
  show "listing_sortDir n2s (JStr ''DESC'') = Inr (- 1)"
    by (simp add: listing_sortDir_def toLowerCase_def lowerChar_def upperLetters_def lowerLetters_def)
  show "listing_sortDir n2s (JStr ''DeSc'') = Inr (- 1)"
    by (simp add: listing_sortDir_def toLowerCase_def lowerChar_def upperLetters_def lowerLetters_def)
next
  assume "ToNumber n2s skip = Inr m"
  then show "listing_sk n2s skip =
          Inr (case m of
                 NaN \<Rightarrow> Fin 0 | PosInf \<Rightarrow> PosInf | NegInf \<Rightarrow> Fin 0
               | Fin r \<Rightarrow> if r < 0 then Fin 0 else Fin r)"
    by (rule listing_sk_eq)
next
  assume "ToString n2s sortv = Inr k"
  then show "listing_sortKey n2s sortv = Inr (if k \<in> set sortable then k else ''_id'')"
    by (simp add: listing_sortKey_def)
next
  assume "ToString n2s orderv = Inr s"
  then show "listing_sortDir n2s orderv = Inr (if toLowerCase s = ''desc'' then - 1 else 1)"
    by (simp add: listing_sortDir_def)
qed

theorem listing_parameters_witness:
  "listing_lim printInteger (JStr ''7'') = Inr (Fin 7)
   \<and> listing_sk printInteger (JStr ''20'') = Inr (Fin 20)
   \<and> listing_sortKey printInteger (JStr ''price'') = Inr ''price''
   \<and> listing_sortDir printInteger (JStr ''asc'') = Inr 1
   \<and> listingParams printInteger (JStr ''500'') (JStr ''-5'') (JStr ''unknown_field'') (JStr ''DESC'')
       = Inr \<lparr>lim = Fin 100, sk = Fin 0, sortKey = ''_id'', sortDir = - 1\<rparr>"
proof -
  have a: "ToNumber printInteger (JStr ''7'') = Inr (Fin 7)"
    "ToNumber printInteger (JStr ''20'') = Inr (Fin 20)"
    by (simp_all add: StringToNumber_integers)
  have b: "ToString printInteger (JStr ''price'') = Inr ''price''"
    "ToString printInteger (JStr ''asc'') = Inr ''asc''"
    by simp_all
  have c: "toLowerCase ''asc'' \<noteq> ''desc''" "''price'' \<in> set sortable"
    by (simp_all add: toLowerCase_def lowerChar_def upperLetters_def lowerLetters_def sortable_def)
  from listing_parameters [of printInteger "JStr ''7''" "Fin 7" _ "JStr ''20''" "Fin 20"
         "JStr ''price''" "''price''" "JStr ''asc''" "''asc''"] a b c
  show ?thesis
    by (simp add: listingParams_def)
qed

text \<open>The claim as it is written fails at \<open>limit=0\<close>: 0 is falsy, and the default 50 is taken.\<close>

theorem listing_limit_zero_counterexample:
  "listing_lim printInteger (JStr ''0'') = Inr (Fin 50) \<and> Fin 50 \<noteq> Fin 1"
  by (simp add: listing_lim_def num_or_def StringToNumber_integers)

section \<open>The update of a lesson\<close>

lemma map_of_setField:
  "map_of (setField k v kvs) k' = (if k' = k then Some v else map_of kvs k')"
  by (induction kvs) auto

lemma keys_setField: "fst ` set (setField k v kvs) = insert k (fst ` set kvs)"
proof (induction kvs)
  case Nil
  show ?case by simp
next
  case (Cons kv kvs)
  obtain a b where kv: "kv = (a, b)" by (cases kv)
  show ?case
  proof (cases "a = k")
    case True
    with kv show ?thesis by simp
  next
    case False
    with kv Cons.IH show ?thesis by (simp add: insert_commute)
  qed
qed

lemma map_of_filter_key:
  "map_of (filter (\<lambda>kv. fst kv \<noteq> k) kvs) k' = (if k' = k then None else map_of kvs k')"
  by (induction kvs) auto

lemma own_assignProp:
  "k \<noteq> ''__proto__'' \<Longrightarrow>
   map_of (own (assignProp u kv)) k = (if fst kv = k then Some (snd kv) else map_of (own u) k)"
  by (cases kv) (auto simp: map_of_setField split: jsval.splits)

lemma own_foldl_assignProp:
  "k \<noteq> ''__proto__'' \<Longrightarrow>
   map_of (own (foldl assignProp u kvs)) k =
     (case map_of (rev kvs) k of Some v \<Rightarrow> Some v | None \<Rightarrow> map_of (own u) k)"
proof (induction kvs arbitrary: u)
  case Nil
  show ?case by simp
next
  case (Cons kv kvs)
  show ?case
    using Cons.IH [OF Cons.prems, of "assignProp u kv"] own_assignProp [OF Cons.prems, of u kv]
    by (cases kv) (auto simp: map_add_def split: option.splits)
qed

lemma map_of_rev_distinct: "distinct (map fst kvs) \<Longrightarrow> map_of (rev kvs) = map_of kvs"
proof -
  assume d: "distinct (map fst kvs)"
  then have "distinct (map fst (rev kvs))" by (simp add: rev_map [symmetric])
  with d show ?thesis by (simp add: map_of_inject_set)
qed

lemma readProp_assign:
  assumes "distinct (map fst kvs)" "map_of kvs k = Some v" "k \<noteq> ''__proto__''"
  shows "map_of (own (Object_assign (JObj kvs))) k = Some v"
  using assms by (simp add: Object_assign_def own_foldl_assignProp map_of_rev_distinct)

lemma stripped_keys: "''_id'' \<notin> fst ` set (own (stripped body))"
proof (cases "hasProp (Object_assign body) ''_id''")
  case True
  then show ?thesis by (auto simp: stripped_def deleteOwn_def)
next
  case False
  then have "map_of (own (Object_assign body)) ''_id'' = None" by (simp add: hasProp_def)
  with False show ?thesis by (simp add: stripped_def map_of_eq_None_iff)
qed

lemma prepareUpdate_keys:
  assumes "prepareUpdate n2s body = Inr u"
  shows "''_id'' \<notin> fst ` set (own u)"
proof (cases "readProp (stripped body) ''space'' \<noteq> JUndefined \<and> readProp (stripped body) ''space'' \<noteq> JNull")
  case False
  with assms have "u = stripped body" by (simp add: prepareUpdate_def)
  then show ?thesis by (simp only: stripped_keys not_False_eq_True)
next
  case True
  show ?thesis
  proof (cases "ToNumber n2s (readProp (stripped body) ''space'')")
    case (Inl e)
    with True assms show ?thesis by (simp add: prepareUpdate_def)
  next
    case (Inr n)
    with True assms have "own u = setField ''space'' (JNum n) (own (stripped body))"
      by (cases "isFinite n") (auto simp: prepareUpdate_def)
    then have "fst ` set (own u) = insert ''space'' (fst ` set (own (stripped body)))"
      by (simp only: keys_setField)
    with stripped_keys [of body] show ?thesis by simp
  qed
qed

text \<open>
  What the handler does with the field \<open>space\<close> of a parsed object, the identifier
  being valid. If the value converts to a number that is not finite, the answer is 400
  with \<open>space must be a number\<close> and the database is as before: no write is issued
  and no lesson changes. If the conversion raises, the handler's catch answers 500, and
  the database is as before as well. And whatever the body, a request issues at most
  one write, for the identifier of the path and with no field \<open>_id\<close>.
\<close>

lemma put_rejects_non_numeric_space:
  assumes "ObjectId_valid idp" and "distinct (map fst kvs)"
    and "map_of kvs ''space'' = Some v" and "v \<noteq> JUndefined"
  shows "(ToNumber n2s v = Inr n \<and> \<not> isFinite n \<longrightarrow>
            put_lesson n2s db idp (JObj kvs) = (Response 400 (ErrorBody ''space must be a number''), db))
       \<and> (ToNumber n2s v = Inl TypeError \<longrightarrow>
            put_lesson n2s db idp (JObj kvs) = (Response 500 (ErrorBody ''Failed to update lesson''), db))
       \<and> (\<forall>body resp db'. put_lesson n2s db idp body = (resp, db') \<longrightarrow>
            writes db' = writes db \<or>
            (\<exists>fs. writes db' = writes db @ [(toLowerCase idp, fs)] \<and> ''_id'' \<notin> fst ` set fs))"
proof (intro conjI impI allI)
  have "map_of (own (Object_assign (JObj kvs))) ''space'' = Some v"
    using assms(2,3) by (intro readProp_assign) simp_all
  then have r: "readProp (stripped (JObj kvs)) ''space'' = v"
    by (simp add: readProp_def stripped_def deleteOwn_def map_of_filter_key)
  {
    assume a: "ToNumber n2s v = Inr n \<and> \<not> isFinite n"
    then have "v \<noteq> JNull" by auto
    with a r assms(4)
    have "prepareUpdate n2s (JObj kvs) = Inl (Response 400 (ErrorBody ''space must be a number''))"
      by (simp add: prepareUpdate_def)
    with assms(1)
    show "put_lesson n2s db idp (JObj kvs) = (Response 400 (ErrorBody ''space must be a number''), db)"
      by (simp add: put_lesson_def)
  }
  {
    assume a: "ToNumber n2s v = Inl TypeError"
    then have "v \<noteq> JNull" by auto
    with a r assms(4)
    have "prepareUpdate n2s (JObj kvs) = Inl (Response 500 (ErrorBody ''Failed to update lesson''))"
      by (simp add: prepareUpdate_def)
    with assms(1)
    show "put_lesson n2s db idp (JObj kvs) = (Response 500 (ErrorBody ''Failed to update lesson''), db)"
      by (simp add: put_lesson_def)
  }
next
  fix body resp db'
  assume p: "put_lesson n2s db idp body = (resp, db')"
  show "writes db' = writes db \<or>
            (\<exists>fs. writes db' = writes db @ [(toLowerCase idp, fs)] \<and> ''_id'' \<notin> fst ` set fs)"
  proof (cases "prepareUpdate n2s body")
    case (Inl e)
    with p show ?thesis by (auto simp: put_lesson_def split: if_splits)
  next
    case (Inr u)
    then have "''_id'' \<notin> fst ` set (own u)" by (rule prepareUpdate_keys)
    with p Inr show ?thesis
      by (auto simp: put_lesson_def updateOne_def split: if_splits option.splits)
  qed
qed

lemma put_rejects_non_numeric_space_example:
  "put_lesson printInteger
     \<lparr>reachable = True,
      lessons = [''65a1b2c3d4e5f60718293a4b'' \<mapsto> [(''topic'', JStr ''Yoga''), (''space'', JNum (Fin 5))]],
      writes = []\<rparr>
     ''65a1b2c3d4e5f60718293a4b'' (JObj [(''space'', JStr ''many''), (''_id'', JStr ''x'')])
   = (Response 400 (ErrorBody ''space must be a number''),
      \<lparr>reachable = True,
       lessons = [''65a1b2c3d4e5f60718293a4b'' \<mapsto> [(''topic'', JStr ''Yoga''), (''space'', JNum (Fin 5))]],
       writes = []\<rparr>)"
proof -
  have a: "ObjectId_valid ''65a1b2c3d4e5f60718293a4b''"
    "distinct (map fst [(''space'', JStr ''many''), (''_id'', JStr ''x'')])"
    "map_of [(''space'', JStr ''many''), (''_id'', JStr ''x'')] ''space'' = Some (JStr ''many'')"
    "JStr ''many'' \<noteq> JUndefined"
    by (simp_all add: ObjectId_valid_def isHexDigit_def)
  have b: "ToNumber printInteger (JStr ''many'') = Inr NaN \<and> \<not> isFinite NaN"
    by (simp add: StringToNumber_not_numeric)
  from put_rejects_non_numeric_space [OF a, of printInteger NaN] b
  show ?thesis by blast
qed

text \<open>
  Claim C8. A request \<^verbatim>\<open>PUT /lessons/:id\<close> with a valid identifier and a body whose
  \<open>space\<close> does not convert to a finite number is to be answered with 400 before any
  write. The code does not do so when \<open>space\<close> is a parsed object with an own property
  \<open>toString\<close>, as in \<open>{toString: 1}\<close>: the value converts to no number, the
  unguarded conversion raises a TypeError, and the answer is 500, not 400. No write is
  issued.
\<close>

theorem put_lesson_space_raises:
  "ObjectId_valid ''65a1b2c3d4e5f60718293a4b''
   \<and> ToNumber printInteger (JObj [(''toString'', JNum (Fin 1))]) = Inl TypeError
   \<and> put_lesson printInteger
     \<lparr>reachable = True,
      lessons = [''65a1b2c3d4e5f60718293a4b'' \<mapsto> [(''topic'', JStr ''Yoga''), (''space'', JNum (Fin 5))]],
      writes = []\<rparr>
     ''65a1b2c3d4e5f60718293a4b'' (JObj [(''space'', JObj [(''toString'', JNum (Fin 1))])])
   = (Response 500 (ErrorBody ''Failed to update lesson''),
      \<lparr>reachable = True,
       lessons = [''65a1b2c3d4e5f60718293a4b'' \<mapsto> [(''topic'', JStr ''Yoga''), (''space'', JNum (Fin 5))]],
       writes = []\<rparr>)"
  by (simp add: put_lesson_def prepareUpdate_def stripped_def Object_assign_def hasProp_def
      readProp_def ObjectId_valid_def isHexDigit_def)

theorem put_lesson_space_raises_witness:
  "fst (put_lesson printInteger
     \<lparr>reachable = True,
      lessons = [''65a1b2c3d4e5f60718293a4b'' \<mapsto> [(''topic'', JStr ''Yoga''), (''space'', JNum (Fin 5))]],
      writes = []\<rparr>
     ''65a1b2c3d4e5f60718293a4b'' (JObj [(''space'', JObj [(''toString'', JNum (Fin 1))])]))
   = Response 500 (ErrorBody ''Failed to update lesson'')"
  using put_lesson_space_raises by simp

section \<open>The Query Builder: search\<close>

lemma special_not_alnum: "regexSpecial c \<Longrightarrow> \<not> isAlnum c"
  by (auto simp: regexSpecial_def isAlnum_def)

lemma backslash_special: "regexSpecial (CHR 0x5C)"
  by (simp add: regexSpecial_def)

lemma charToken_plain: "\<not> regexSpecial c \<Longrightarrow> charToken c = Some (TAtom (Lit c))"
  by (simp add: regexSpecial_def charToken_def)

lemma lexRegex_plain:
  assumes "\<not> regexSpecial c"
  shows "lexRegex (c # cs) = map_option (Cons (TAtom (Lit c))) (lexRegex cs)"
proof -
  from assms have "c \<noteq> CHR 0x5C" using backslash_special by auto
  with assms show ?thesis by (cases cs) (simp_all add: charToken_plain)
qed

lemma lexRegex_escaped:
  "regexSpecial c \<Longrightarrow>
   lexRegex (CHR 0x5C # c # cs) = map_option (Cons (TAtom (Lit c))) (lexRegex cs)"
  by (simp add: escapeToken_def special_not_alnum)

lemma lexRegex_escapeRegex: "lexRegex (escapeRegex t) = Some (map (\<lambda>c. TAtom (Lit c)) t)"
proof (induction t)
  case Nil
  show ?case by (simp add: escapeRegex_def)
next
  case (Cons c t)
  have e: "escapeRegex (c # t) = (if regexSpecial c then [CHR 0x5C, c] else [c]) @ escapeRegex t"
    by (simp add: escapeRegex_def)
  show ?case
  proof (cases "regexSpecial c")
    case True
    then have "lexRegex (CHR 0x5C # c # escapeRegex t)
                 = map_option (Cons (TAtom (Lit c))) (lexRegex (escapeRegex t))"
      by (rule lexRegex_escaped)
    with True e Cons.IH show ?thesis by (simp del: lexRegex.simps)
  next
    case False
    then have "lexRegex (c # escapeRegex t)
                 = map_option (Cons (TAtom (Lit c))) (lexRegex (escapeRegex t))"
      by (rule lexRegex_plain)
    with False e Cons.IH show ?thesis by (simp del: lexRegex.simps)
  qed
qed

lemma parseTerms_literals:
  "parseTerms (map (\<lambda>c. TAtom (Lit c)) t) = Some [map (\<lambda>c. Atom (Lit c) Once) t]"
proof (induction t)
  case Nil
  show ?case by simp
next
  case (Cons c t)
  then show ?case by (cases t) simp_all
qed

lemma matchTerms_literals:
  "matchTerms b (map (\<lambda>c. Atom (Lit c) Once) t) s \<longleftrightarrow>
     (\<exists>v. toLowerCase s = toLowerCase t @ v)"
proof (induction t arbitrary: s b)
  case Nil
  show ?case by (simp add: toLowerCase_def)
next
  case (Cons c t)
  show ?case
  proof (cases s)
    case Nil
    then show ?thesis by (simp add: toLowerCase_def)
  next
    case (Cons d ds)
    with Cons.IH [of False ds] show ?thesis
      by (auto simp: toLowerCase_def)
  qed
qed

lemma searchFrom_literals:
  "searchFrom b [map (\<lambda>c. Atom (Lit c) Once) t] s \<longleftrightarrow>
     (\<exists>u v. toLowerCase s = u @ toLowerCase t @ v)"
proof (induction s arbitrary: b)
  case Nil
  show ?case by (simp add: matchTerms_literals toLowerCase_def)
next
  case (Cons d ds)
  have "(\<exists>u v. toLowerCase (d # ds) = u @ toLowerCase t @ v) \<longleftrightarrow>
        (\<exists>v. toLowerCase (d # ds) = toLowerCase t @ v) \<or>
        (\<exists>u v. toLowerCase ds = u @ toLowerCase t @ v)"
  proof
    assume "\<exists>u v. toLowerCase (d # ds) = u @ toLowerCase t @ v"
    then obtain u v where uv: "toLowerCase (d # ds) = u @ toLowerCase t @ v" by blast
    show "(\<exists>v. toLowerCase (d # ds) = toLowerCase t @ v) \<or>
        (\<exists>u v. toLowerCase ds = u @ toLowerCase t @ v)"
    proof (cases u)
      case Nil
      with uv show ?thesis by auto
    next
      case (Cons x xs)
      with uv have "toLowerCase ds = xs @ toLowerCase t @ v" by (simp add: toLowerCase_def)
      then show ?thesis by blast
    qed
  next
    assume "(\<exists>v. toLowerCase (d # ds) = toLowerCase t @ v) \<or>
        (\<exists>u v. toLowerCase ds = u @ toLowerCase t @ v)"
    then show "\<exists>u v. toLowerCase (d # ds) = u @ toLowerCase t @ v"
    proof
      assume "\<exists>v. toLowerCase (d # ds) = toLowerCase t @ v"
      then obtain v where "toLowerCase (d # ds) = [] @ toLowerCase t @ v" by auto
      then show ?thesis by blast
    next
      assume "\<exists>u v. toLowerCase ds = u @ toLowerCase t @ v"
      then obtain u v where "toLowerCase ds = u @ toLowerCase t @ v" by blast
      then have "toLowerCase (d # ds) = (lowerChar d # u) @ toLowerCase t @ v"
        by (simp add: toLowerCase_def)
      then show ?thesis by blast
    qed
  qed
  with Cons.IH [of False] show ?case
    by (simp add: matchTerms_literals)
qed

text \<open>
  Claim C6. For every term and every candidate string, the pattern built from the
  escaped term is interpreted, and it matches the candidate exactly when the term
  occurs in it as a substring, letters compared without their case: every character
  of the term, the fourteen special ones included, stands for itself. So the term
  \<open>a.b\<close> does not match \<open>axb\<close>, which the unescaped pattern \<open>a.b\<close> does; and
  the case of an accented letter is disregarded like that of a letter of ASCII.
\<close>

theorem escaped_search_is_substring:
  "RegExp_test (escapeRegex term) cand
     = Some (\<exists>u v. toLowerCase cand = u @ toLowerCase term @ v)
   \<and> RegExp_test (escapeRegex ''a.b'') ''axb'' = Some False
   \<and> RegExp_test ''a.b'' ''axb'' = Some True
   \<and> RegExp_test (escapeRegex ''.*+?^${}()|[]'') ''<.*+?^${}()|[]>'' = Some True
   \<and> RegExp_test (escapeRegex [CHR 0x5C, CHR ''d'']) ''7'' = Some False
   \<and> RegExp_test (escapeRegex [CHR 0xE9]) [CHR ''C'', CHR ''A'', CHR ''F'', CHR 0xC9] = Some True"
proof (intro conjI)
  show "RegExp_test (escapeRegex term) cand
     = Some (\<exists>u v. toLowerCase cand = u @ toLowerCase term @ v)"
    by (simp add: RegExp_test_def lexRegex_escapeRegex parseTerms_literals searchFrom_literals)
  show "RegExp_test (escapeRegex ''a.b'') ''axb'' = Some False"
    by code_simp
  show "RegExp_test ''a.b'' ''axb'' = Some True"
    by code_simp
  show "RegExp_test (escapeRegex ''.*+?^${}()|[]'') ''<.*+?^${}()|[]>'' = Some True"
    by code_simp
  show "RegExp_test (escapeRegex [CHR 0x5C, CHR ''d'']) ''7'' = Some False"
    by code_simp
  show "RegExp_test (escapeRegex [CHR 0xE9]) [CHR ''C'', CHR ''A'', CHR ''F'', CHR 0xC9] = Some True"
    by code_simp
qed

end
